theory Spec2Isabelle
  imports Complex_Main "HOL-Library.AList"
begin

section \<open>Python values shared by the three components\<close>

text \<open>
  Exceptions are values.  Only the classes the handlers of the source tell apart are
  kept distinct: \<open>RequestException\<close> stands for \<open>requests.RequestException\<close> and all its
  subclasses, \<open>OtherException\<close> for any further subclass of \<open>Exception\<close>.  Every handler
  of the source is \<open>except Exception\<close> or narrower, so exceptions outside \<open>Exception\<close>
  (\<open>KeyboardInterrupt\<close>, \<open>SystemExit\<close>) are not represented.  The string is \<open>str(e)\<close>.
\<close>

datatype exn_class =
  ValueError | RuntimeError | KeyError | IndexError | TypeError | AttributeError
  | ZeroDivisionError | RequestException | OtherException

datatype pyexn = Raise exn_class string

fun exn_str :: "pyexn \<Rightarrow> string" where
  "exn_str (Raise c m) = m"

fun exn_cls :: "pyexn \<Rightarrow> exn_class" where
  "exn_cls (Raise c m) = c"

text \<open>
  A Python \<open>str\<close> is a \<open>string\<close> whose characters are the code points below 256.  On
  these, \<open>str.isspace\<close> holds for U+0009..U+000D, U+001C..U+0020, U+0085 and U+00A0, and
  \<open>str.lower\<close> adds 32 to A..Z and to U+00C0..U+00DE except U+00D7.
\<close>

definition isspace :: "char \<Rightarrow> bool" where
  "isspace c =
     (let n = (of_char c :: nat)
      in (9 \<le> n \<and> n \<le> 13) \<or> (28 \<le> n \<and> n \<le> 32) \<or> n = 133 \<or> n = 160)"

definition strip :: "string \<Rightarrow> string" where
  "strip s = rev (dropWhile isspace (rev (dropWhile isspace s)))"

definition lower_char :: "char \<Rightarrow> char" where
  "lower_char c =
     (let n = (of_char c :: nat)
      in if (65 \<le> n \<and> n \<le> 90) \<or> (192 \<le> n \<and> n \<le> 222 \<and> n \<noteq> 215)
         then char_of (n + 32) else c)"

definition lower :: "string \<Rightarrow> string" where
  "lower s = map lower_char s"

text \<open>\<open>str(n)\<close> for a non-negative integer.\<close>

fun digit_char :: "nat \<Rightarrow> char" where
  "digit_char n = char_of (48 + n)"

function str_nat :: "nat \<Rightarrow> string" where
  "str_nat n = (if n < 10 then [digit_char n] else str_nat (n div 10) @ [digit_char (n mod 10)])"
  by pat_completeness auto
termination
  by (relation "measure id") auto

declare str_nat.simps [simp del]

text \<open>
  \<open>round(x, ndigits)\<close> on the reals: to the nearest multiple of \<open>10 ^ -ndigits\<close>, a tie
  going to the even neighbour.  Floats are read as the reals they denote.
\<close>

definition round_half_even :: "real \<Rightarrow> int" where
  "round_half_even r =
     (let f = \<lfloor>r\<rfloor>; d = r - of_int f
      in if d < 1 / 2 then f else if 1 / 2 < d then f + 1 else if even f then f else f + 1)"

definition py_round :: "real \<Rightarrow> nat \<Rightarrow> real" where
  "py_round x ndigits = of_int (round_half_even (x * 10 ^ ndigits)) / 10 ^ ndigits"

section \<open>Embedding generator (app/embeddings.py)\<close>

text \<open>
  The fields of \<open>EmbeddingGenerator\<close> the generation methods read.  \<open>model\<close> is the loaded
  SentenceTransformer, reduced to its \<open>encode\<close> method (\<open>None\<close> when no model is
  loaded); its result is already the list of rows that \<open>tolist()\<close> produces.
\<close>

record embedding_generator =
  embedding_dim :: nat
  use_fallback :: bool
  model :: "(string list \<Rightarrow> pyexn + real list list) option"

text \<open>\<open>int(s, 16)\<close> on a string of hexadecimal digits; anything else is a ValueError.\<close>

definition hex_digit :: "char \<Rightarrow> nat option" where
  "hex_digit c =
     (let n = (of_char c :: nat)
      in if 48 \<le> n \<and> n \<le> 57 then Some (n - 48)
         else if 97 \<le> n \<and> n \<le> 102 then Some (n - 87)
         else if 65 \<le> n \<and> n \<le> 70 then Some (n - 55)
         else None)"

fun int16_acc :: "nat \<Rightarrow> string \<Rightarrow> nat option" where
  "int16_acc acc [] = Some acc"
| "int16_acc acc (c # cs) =
     (case hex_digit c of None \<Rightarrow> None | Some d \<Rightarrow> int16_acc (16 * acc + d) cs)"

definition int16 :: "string \<Rightarrow> pyexn + nat" where
  "int16 s =
     (if s = [] then Inl (Raise ValueError ''invalid literal for int() with base 16'')
      else case int16_acc 0 s of
             None \<Rightarrow> Inl (Raise ValueError ''invalid literal for int() with base 16'')
           | Some v \<Rightarrow> Inr v)"

text \<open>\<open>range(0, n, 2)\<close>.\<close>

definition range_step2 :: "nat \<Rightarrow> nat list" where
  "range_step2 n = map (\<lambda>k. 2 * k) [0..<(n + 1) div 2]"

text \<open>
  The first inner loop of \<open>_generate_fallback_embeddings\<close>, over the remaining values of
  \<open>i\<close>: it stops when the embedding is full, reads the hex pair \<open>text_hash[i:i+2]\<close>, and
  appends the transformed value.  \<open>% len(text_lower)\<close> raises on the empty string.
\<close>

fun hash_loop :: "nat \<Rightarrow> string \<Rightarrow> string \<Rightarrow> nat list \<Rightarrow> real list \<Rightarrow> pyexn + real list" where
  "hash_loop D text_hash text_lower [] embedding = Inr embedding"
| "hash_loop D text_hash text_lower (i # rest) embedding =
     (if D \<le> length embedding then Inr embedding
      else case int16 (take 2 (drop i text_hash)) of
        Inl e \<Rightarrow> Inl e
      | Inr b \<Rightarrow>
          if length text_lower = 0
          then Inl (Raise ZeroDivisionError ''integer modulo by zero'')
          else
            let base_value = real b / 255;
                char_index = length embedding mod length text_lower;
                char_value = real (of_char (text_lower ! char_index)) / 255;
                length_factor = ln (real (length text_lower) + 1) / 10;
                final_value = base_value * 0.6 + char_value * 0.3 + length_factor * 0.1;
                final_value' = (sin (final_value * pi * 2) + 1) / 2
            in hash_loop D text_hash text_lower rest (embedding @ [final_value']))"

text \<open>The second inner loop: \<open>while len(embedding) < self.embedding_dim\<close>.\<close>

function fill_loop :: "nat \<Rightarrow> string \<Rightarrow> real list \<Rightarrow> real list" where
  "fill_loop D text_lower embedding =
     (if length embedding < D
      then
        let pos = length embedding;
            pos_value = sin (real (pos * length text_lower) / 100)
        in fill_loop D text_lower (embedding @ [(pos_value + 1) / 2])
      else embedding)"
  by pat_completeness auto
termination
  by (relation "measure (\<lambda>(D, t, e). D - length e)") auto

declare fill_loop.simps [simp del]

definition l2_normalize :: "real list \<Rightarrow> real list" where
  "l2_normalize embedding =
     (let magnitude = sqrt (sum_list (map (\<lambda>x. x * x) embedding))
      in if 0 < magnitude then map (\<lambda>x. x / magnitude) embedding else embedding)"

text \<open>
  The body of the \<open>for text in texts\<close> loop of \<open>_generate_fallback_embeddings\<close>, for one
  text.  \<open>sha256_hexdigest s\<close> is \<open>hashlib.sha256(s.encode()).hexdigest()\<close>, a parameter.
\<close>

definition fallback_embedding :: "(string \<Rightarrow> string) \<Rightarrow> nat \<Rightarrow> string \<Rightarrow> pyexn + real list" where
  "fallback_embedding sha256_hexdigest D text =
     (if strip text = [] then Inr (replicate D 0)
      else
        let text_lower = strip (lower text);
            text_hash = sha256_hexdigest text_lower
        in case hash_loop D text_hash text_lower
                  (range_step2 (min (length text_hash) (D * 2))) [] of
             Inl e \<Rightarrow> Inl e
           | Inr embedding \<Rightarrow> Inr (take D (l2_normalize (fill_loop D text_lower embedding))))"

fun generate_fallback_embeddings ::
  "(string \<Rightarrow> string) \<Rightarrow> nat \<Rightarrow> string list \<Rightarrow> pyexn + real list list" where
  "generate_fallback_embeddings H D [] = Inr []"
| "generate_fallback_embeddings H D (text # texts) =
     (case fallback_embedding H D text of
        Inl e \<Rightarrow> Inl e
      | Inr v \<Rightarrow>
          (case generate_fallback_embeddings H D texts of
             Inl e \<Rightarrow> Inl e
           | Inr vs \<Rightarrow> Inr (v # vs)))"

definition generate_model_embeddings ::
  "embedding_generator \<Rightarrow> string list \<Rightarrow> pyexn + real list list" where
  "generate_model_embeddings g texts =
     (case model g of
        None \<Rightarrow> Inl (Raise RuntimeError ''Model not loaded'')
      | Some encode \<Rightarrow> encode texts)"

text \<open>
  \<open>generate_embeddings\<close>.  The elements are strings by their type, so the
  \<open>isinstance\<close> check passes.  The \<open>try\<close> wraps any exception of the backend as a
  RuntimeError.
\<close>

definition generate_embeddings ::
  "(string \<Rightarrow> string) \<Rightarrow> embedding_generator \<Rightarrow> string list \<Rightarrow> pyexn + real list list" where
  "generate_embeddings H g texts =
     (if texts = [] then Inr []
      else
        let processed_texts = map strip (filter (\<lambda>text. strip text \<noteq> []) texts)
        in if processed_texts = []
           then Inr (map (\<lambda>_. replicate (embedding_dim g) 0) texts)
           else
             case (if use_fallback g
                   then generate_fallback_embeddings H (embedding_dim g) texts
                   else generate_model_embeddings g processed_texts) of
               Inl e \<Rightarrow> Inl (Raise RuntimeError (''Failed to generate embeddings: '' @ exn_str e))
             | Inr embeddings \<Rightarrow> Inr embeddings)"

section \<open>Vector store (app/database.py)\<close>

text \<open>
  Metadata is a Python dict with string keys: an association list in insertion order,
  written with \<open>AList.update\<close> (replace in place, else append), as a dict is.
\<close>

datatype mval = MStr string | MInt int | MFloat real | MBool bool

type_synonym metadata = "(string \<times> mval) list"

text \<open>
  The ChromaDB collection is the store's backend, a parameter: each method takes the
  backend state and returns its result, or the exception it raised, with the new state.
  An id is \<open>None\<close> or a string, as the Python value passed may be.  A key that is
  absent from a result dict and a key bound to \<open>None\<close> or to an empty list are not
  told apart by the source (\<open>result.get(...)\<close> followed by a truth test), so \<open>gr_ids\<close>
  is a plain list and the other keys are optional lists.
\<close>

record get_result =
  gr_ids :: "string list"
  gr_documents :: "string list option"
  gr_metadatas :: "metadata list option"
  gr_embeddings :: "real list list option"

record update_params =
  up_documents :: "string list option"
  up_embeddings :: "real list list option"
  up_metadatas :: "metadata list option"

record query_result =
  qr_documents :: "string list list"
  qr_distances :: "real list list"
  qr_metadatas :: "metadata list list"
  qr_ids :: "string list list"

record 's collection =
  coll_get :: "string option list \<Rightarrow> string list option \<Rightarrow> 's \<Rightarrow> (pyexn + get_result) \<times> 's"
  coll_add ::
    "string option list \<Rightarrow> string list \<Rightarrow> real list list \<Rightarrow> metadata list \<Rightarrow> 's
       \<Rightarrow> (pyexn + unit) \<times> 's"
  coll_update :: "string option list \<Rightarrow> update_params \<Rightarrow> 's \<Rightarrow> (pyexn + unit) \<times> 's"
  coll_delete :: "string option list \<Rightarrow> 's \<Rightarrow> (pyexn + unit) \<times> 's"
  coll_query :: "real list list \<Rightarrow> int \<Rightarrow> string list \<Rightarrow> 's \<Rightarrow> (pyexn + query_result) \<times> 's"

definition MAX_SEARCH_DOCUMENTS :: int where
  "MAX_SEARCH_DOCUMENTS = 50"

text \<open>
  \<open>_generate_document_id\<close>: the body binds \<open>content\<close> and ends; there is no \<open>return\<close>, so
  the call yields \<open>None\<close>.  \<open>hash_str metadata\<close> stands for the text that
  \<open>{hash(str(metadata))}\<close> formats, a parameter.
\<close>

definition generate_document_id :: "(metadata \<Rightarrow> string) \<Rightarrow> string \<Rightarrow> metadata option \<Rightarrow> string option" where
  "generate_document_id hash_str text metadata =
     (let metadata = (case metadata of None \<Rightarrow> [] | Some m \<Rightarrow> m);
          content = text @ '':'' @ hash_str metadata
      in None)"

text \<open>\<open>_document_exists\<close>: any exception of the backend reads as "does not exist".\<close>

definition document_exists :: "'s collection \<Rightarrow> string option \<Rightarrow> 's \<Rightarrow> bool \<times> 's" where
  "document_exists c doc_id s =
     (case coll_get c [doc_id] None s of
        (Inl e, s') \<Rightarrow> (False, s')
      | (Inr result, s') \<Rightarrow> (0 < length (gr_ids result), s'))"

text \<open>
  \<open>add_document\<close>.  \<open>now\<close> is the value \<open>time.time()\<close> returns.  The existence check runs
  only when \<open>allow_duplicates\<close> is false (\<open>and\<close> short-circuits).
\<close>

definition add_document ::
  "(metadata \<Rightarrow> string) \<Rightarrow> 's collection \<Rightarrow> string \<Rightarrow> real list \<Rightarrow> metadata option \<Rightarrow> bool \<Rightarrow> real
     \<Rightarrow> 's \<Rightarrow> (pyexn + string option) \<times> 's" where
  "add_document hash_str c text embedding metadata allow_duplicates now s =
     (let metadata = (case metadata of None \<Rightarrow> [] | Some m \<Rightarrow> m);
          doc_id = generate_document_id hash_str text (Some metadata);
          (dup, s1) = (if \<not> allow_duplicates then document_exists c doc_id s else (False, s))
      in if dup then (Inr doc_id, s1)
         else
           let metadata' =
                 AList.update ''text_length'' (MInt (int (length text)))
                   (AList.update ''timestamp'' (MFloat now) metadata)
           in case coll_add c [doc_id] [text] [embedding] [metadata'] s1 of
                (Inl e, s2) \<Rightarrow>
                  (Inl (Raise RuntimeError (''Document storage failed: '' @ exn_str e)), s2)
              | (Inr _, s2) \<Rightarrow> (Inr doc_id, s2))"

record search_results =
  sr_documents :: "string list"
  sr_distances :: "real list"
  sr_metadatas :: "metadata list"
  sr_ids :: "string list"

text \<open>\<open>xs[0] if xs and xs[0] else []\<close>.\<close>

definition first_or_empty :: "'a list list \<Rightarrow> 'a list" where
  "first_or_empty xs = (case xs of [] \<Rightarrow> [] | x # _ \<Rightarrow> x)"

definition clamp_n_results :: "int \<Rightarrow> int" where
  "clamp_n_results n_results = max 1 (min n_results MAX_SEARCH_DOCUMENTS)"

definition wrap_search_results :: "(pyexn + query_result) \<times> 's \<Rightarrow> (pyexn + search_results) \<times> 's" where
  "wrap_search_results r =
     (case r of
        (Inl e, s') \<Rightarrow> (Inl (Raise RuntimeError (''Search failed: '' @ exn_str e)), s')
      | (Inr results, s') \<Rightarrow>
          (Inr \<lparr>sr_documents = first_or_empty (qr_documents results),
                sr_distances = first_or_empty (qr_distances results),
                sr_metadatas = first_or_empty (qr_metadatas results),
                sr_ids = first_or_empty (qr_ids results)\<rparr>, s'))"

definition search :: "'s collection \<Rightarrow> real list \<Rightarrow> int \<Rightarrow> 's \<Rightarrow> (pyexn + search_results) \<times> 's" where
  "search c query_embedding n_results s =
     (let n_results = clamp_n_results n_results
      in wrap_search_results
           (coll_query c [query_embedding] n_results
              [''documents'', ''distances'', ''metadatas''] s))"

text \<open>
  \<open>update_document\<close>: the body of the \<open>try\<close>, in which an exception of the backend
  propagates, and the method, whose handler turns any exception into \<open>False\<close>.
\<close>

definition update_document_try ::
  "'s collection \<Rightarrow> string \<Rightarrow> string option \<Rightarrow> real list option \<Rightarrow> metadata option \<Rightarrow> real
     \<Rightarrow> 's \<Rightarrow> (pyexn + bool) \<times> 's" where
  "update_document_try c doc_id text embedding metadata now s =
     (case document_exists c (Some doc_id) s of
        (False, s1) \<Rightarrow> (Inr False, s1)
      | (True, s1) \<Rightarrow>
          let update_params = \<lparr>up_documents = None, up_embeddings = None, up_metadatas = None\<rparr>;
              update_params =
                (case text of
                   None \<Rightarrow> update_params
                 | Some t \<Rightarrow> update_params\<lparr>up_documents := Some [t]\<rparr>);
              update_params =
                (case embedding of
                   None \<Rightarrow> update_params
                 | Some e \<Rightarrow> update_params\<lparr>up_embeddings := Some [e]\<rparr>);
              update_params =
                (case metadata of
                   None \<Rightarrow> update_params
                 | Some m \<Rightarrow>
                     let m1 = AList.update ''timestamp'' (MFloat now) m;
                         m2 = (case text of
                                 None \<Rightarrow> m1
                               | Some t \<Rightarrow>
                                   if t \<noteq> [] then AList.update ''text_length'' (MInt (int (length t))) m1
                                   else m1)
                     in update_params\<lparr>up_metadatas := Some [m2]\<rparr>)
          in case coll_update c [Some doc_id] update_params s1 of
               (Inl e, s2) \<Rightarrow> (Inl e, s2)
             | (Inr _, s2) \<Rightarrow> (Inr True, s2))"

definition update_document ::
  "'s collection \<Rightarrow> string \<Rightarrow> string option \<Rightarrow> real list option \<Rightarrow> metadata option \<Rightarrow> real
     \<Rightarrow> 's \<Rightarrow> (pyexn + bool) \<times> 's" where
  "update_document c doc_id text embedding metadata now s =
     (case update_document_try c doc_id text embedding metadata now s of
        (Inl e, s') \<Rightarrow> (Inr False, s')
      | (Inr b, s') \<Rightarrow> (Inr b, s'))"

text \<open>
  The \<open>update_params\<close> dict that \<open>update_document\<close> builds and passes to
  \<open>collection.update\<close>, by itself.
\<close>

definition build_update_params ::
  "string option \<Rightarrow> real list option \<Rightarrow> metadata option \<Rightarrow> real \<Rightarrow> update_params" where
  "build_update_params text embedding metadata now =
     (let update_params = \<lparr>up_documents = None, up_embeddings = None, up_metadatas = None\<rparr>;
          update_params =
            (case text of
               None \<Rightarrow> update_params
             | Some t \<Rightarrow> update_params\<lparr>up_documents := Some [t]\<rparr>);
          update_params =
            (case embedding of
               None \<Rightarrow> update_params
             | Some e \<Rightarrow> update_params\<lparr>up_embeddings := Some [e]\<rparr>);
          update_params =
            (case metadata of
               None \<Rightarrow> update_params
             | Some m \<Rightarrow>
                 let m1 = AList.update ''timestamp'' (MFloat now) m;
                     m2 = (case text of
                             None \<Rightarrow> m1
                           | Some t \<Rightarrow>
                               if t \<noteq> [] then AList.update ''text_length'' (MInt (int (length t))) m1
                               else m1)
                 in update_params\<lparr>up_metadatas := Some [m2]\<rparr>)
      in update_params)"

definition delete_document_try :: "'s collection \<Rightarrow> string \<Rightarrow> 's \<Rightarrow> (pyexn + bool) \<times> 's" where
  "delete_document_try c doc_id s =
     (case document_exists c (Some doc_id) s of
        (False, s1) \<Rightarrow> (Inr False, s1)
      | (True, s1) \<Rightarrow>
          (case coll_delete c [Some doc_id] s1 of
             (Inl e, s2) \<Rightarrow> (Inl e, s2)
           | (Inr _, s2) \<Rightarrow> (Inr True, s2)))"

definition delete_document :: "'s collection \<Rightarrow> string \<Rightarrow> 's \<Rightarrow> (pyexn + bool) \<times> 's" where
  "delete_document c doc_id s =
     (case delete_document_try c doc_id s of
        (Inl e, s') \<Rightarrow> (Inr False, s')
      | (Inr b, s') \<Rightarrow> (Inr b, s'))"

record doc_data =
  dd_id :: string
  dd_document :: "string option"
  dd_metadata :: "metadata option"
  dd_embedding :: "real list option"

text \<open>\<open>xs[0]\<close> under \<open>if xs:\<close>, else the \<open>None\<close> the field starts with.\<close>

definition first_if_any :: "'a list option \<Rightarrow> 'a option" where
  "first_if_any xs = (case xs of Some (x # _) \<Rightarrow> Some x | _ \<Rightarrow> None)"

definition get_document_try :: "'s collection \<Rightarrow> string \<Rightarrow> 's \<Rightarrow> (pyexn + doc_data option) \<times> 's" where
  "get_document_try c doc_id s =
     (case coll_get c [Some doc_id] (Some [''documents'', ''metadatas'', ''embeddings'']) s of
        (Inl e, s') \<Rightarrow> (Inl e, s')
      | (Inr result, s') \<Rightarrow>
          (case gr_ids result of
             [] \<Rightarrow> (Inr None, s')
           | i # _ \<Rightarrow>
               (Inr (Some \<lparr>dd_id = i,
                           dd_document = first_if_any (gr_documents result),
                           dd_metadata = first_if_any (gr_metadatas result),
                           dd_embedding = first_if_any (gr_embeddings result)\<rparr>), s')))"

definition get_document :: "'s collection \<Rightarrow> string \<Rightarrow> 's \<Rightarrow> (pyexn + doc_data option) \<times> 's" where
  "get_document c doc_id s =
     (case get_document_try c doc_id s of
        (Inl e, s') \<Rightarrow> (Inr None, s')
      | (Inr d, s') \<Rightarrow> (Inr d, s'))"

section \<open>RAG orchestrator (app/rag.py)\<close>

text \<open>
  The parsed body of the API's response is a JSON value; subscripting, \<open>.get\<close> and
  \<open>len\<close> raise as Python's do on a value of the wrong shape.
\<close>

datatype json =
  JNull | JBool bool | JInt int | JStr string | JList "json list" | JObj "(string \<times> json) list"

fun getitem_key :: "json \<Rightarrow> string \<Rightarrow> pyexn + json" where
  "getitem_key (JObj kvs) k =
     (case map_of kvs k of None \<Rightarrow> Inl (Raise KeyError k) | Some v \<Rightarrow> Inr v)"
| "getitem_key (JList xs) k = Inl (Raise TypeError ''list indices must be integers or slices, not str'')"
| "getitem_key (JStr x) k = Inl (Raise TypeError ''string indices must be integers'')"
| "getitem_key j k = Inl (Raise TypeError ''object is not subscriptable'')"

fun getitem_0 :: "json \<Rightarrow> pyexn + json" where
  "getitem_0 (JList []) = Inl (Raise IndexError ''list index out of range'')"
| "getitem_0 (JList (x # xs)) = Inr x"
| "getitem_0 (JStr []) = Inl (Raise IndexError ''string index out of range'')"
| "getitem_0 (JStr (c # cs)) = Inr (JStr [c])"
| "getitem_0 (JObj kvs) = Inl (Raise KeyError ''0'')"
| "getitem_0 j = Inl (Raise TypeError ''object is not subscriptable'')"

fun get_default :: "json \<Rightarrow> string \<Rightarrow> json \<Rightarrow> pyexn + json" where
  "get_default (JObj kvs) k d = Inr (case map_of kvs k of None \<Rightarrow> d | Some v \<Rightarrow> v)"
| "get_default j k d = Inl (Raise AttributeError ''object has no attribute get'')"

fun py_len :: "json \<Rightarrow> pyexn + nat" where
  "py_len (JStr x) = Inr (length x)"
| "py_len (JList xs) = Inr (length xs)"
| "py_len (JObj kvs) = Inr (length kvs)"
| "py_len j = Inl (Raise TypeError ''object has no len()'')"

definition then_exn :: "pyexn + 'a \<Rightarrow> ('a \<Rightarrow> pyexn + 'b) \<Rightarrow> pyexn + 'b" where
  "then_exn r f = (case r of Inl e \<Rightarrow> Inl e | Inr x \<Rightarrow> f x)"

record source =
  src_content :: string
  src_score :: real
  src_metadata :: metadata

record answer =
  ans_answer :: json
  ans_sources :: "source list"
  ans_model_used :: string
  ans_tokens_used :: json
  ans_processing_time :: real
  ans_context_documents_found :: nat

record http_request =
  req_url :: string
  req_headers :: "(string \<times> string) list"
  req_model :: string
  req_messages :: "(string \<times> string) list"
  req_max_tokens :: nat
  req_temperature :: real
  req_timeout :: int

text \<open>
  \<open>RAGPipeline\<close>: its collaborators act on a world \<open>'w\<close>.  \<open>embedding_generator\<close> is the
  collaborator's \<open>generate_embeddings\<close>, \<open>db_manager\<close> its \<open>search\<close>, and \<open>api_post\<close> is
  \<open>requests.post\<close> followed by \<open>raise_for_status()\<close> and \<open>json()\<close>.
\<close>

record 'w rag_pipeline =
  embedding_generator :: "string list \<Rightarrow> 'w \<Rightarrow> (pyexn + real list list) \<times> 'w"
  db_manager :: "real list \<Rightarrow> int \<Rightarrow> 'w \<Rightarrow> (pyexn + search_results) \<times> 'w"
  api_post :: "http_request \<Rightarrow> 'w \<Rightarrow> (pyexn + json) \<times> 'w"
  model_slug :: string
  api_key :: string
  api_url :: string
  http_referer :: string
  app_title :: string
  request_timeout :: int
  use_mock_llm :: bool

definition create_error_response :: "'w rag_pipeline \<Rightarrow> string \<Rightarrow> answer" where
  "create_error_response p error_message =
     \<lparr>ans_answer = JStr (''Error: '' @ error_message),
      ans_sources = [],
      ans_model_used = model_slug p,
      ans_tokens_used = JInt 0,
      ans_processing_time = 0,
      ans_context_documents_found = 0\<rparr>"

definition format_sources :: "string list \<Rightarrow> metadata list \<Rightarrow> real list \<Rightarrow> source list" where
  "format_sources documents metadatas distances =
     map (\<lambda>(content, metadata, distance).
            let similarity_score = max 0 (1 - distance / 2)
            in \<lparr>src_content = content,
                src_score = py_round similarity_score 3,
                src_metadata = metadata\<rparr>)
         (zip documents (zip metadatas distances))"

fun join :: "string \<Rightarrow> string list \<Rightarrow> string" where
  "join sep [] = []"
| "join sep [x] = x"
| "join sep (x # y # ys) = x @ sep @ join sep (y # ys)"

definition generate_mock_answer :: "string \<Rightarrow> string list \<Rightarrow> string" where
  "generate_mock_answer question context_docs =
     (if context_docs \<noteq> []
      then ''Based on the retrieved context, I found '' @ str_nat (length context_docs)
           @ '' relevant document(s) related to your question: '' @ [CHR 0x22] @ take 100 question
           @ ''...'' @ [CHR 0x22] @ ''\<newline>\<newline>Context summary: The documents contain information that appears relevant to your query.\<newline>\<newline>Note: This is a simulated response because no OpenRouter API key was provided. In a real deployment, this would contain an AI-generated answer based on the context documents.''
      else ''I couldn't find any relevant documents in the database for your question: '' @ [CHR 0x22]
           @ take 100 question
           @ ''...'' @ [CHR 0x22] @ ''\<newline>\<newline>Note: This is a simulated response because no OpenRouter API key was provided. In a real deployment, this would contain an AI-generated answer.'')"

definition build_prompt :: "string \<Rightarrow> string list \<Rightarrow> string" where
  "build_prompt question context_docs =
     (if context_docs \<noteq> []
      then ''Based on the following context, answer the question. If the context doesn't contain enough information, say so clearly.\<newline>\<newline>Context:\<newline>''
           @ join ''\<newline>---\<newline>'' context_docs
           @ ''\<newline>\<newline>Question: '' @ question
           @ ''\<newline>\<newline>Please provide a helpful answer based on the context above. If you reference specific information, mention which part of the context it comes from.''
      else ''Question: '' @ question
           @ ''\<newline>\<newline>I don't have any specific context documents to reference. Please provide a general answer based on your knowledge, but mention that this is without specific context.'')"

definition build_request :: "'w rag_pipeline \<Rightarrow> string \<Rightarrow> http_request" where
  "build_request p prompt =
     \<lparr>req_url = api_url p,
      req_headers =
        [(''Authorization'', ''Bearer '' @ api_key p),
         (''Content-Type'', ''application/json''),
         (''HTTP-Referer'', http_referer p),
         (''X-Title'', app_title p)],
      req_model = model_slug p,
      req_messages =
        [(''system'', ''You are a helpful assistant that answers questions based on provided context. Always be honest about the limitations of the information available.''),
         (''user'', prompt)],
      req_max_tokens = 500,
      req_temperature = 0.1,
      req_timeout = request_timeout p\<rparr>"

text \<open>
  The statements of \<open>_call_openrouter_api\<close> after \<open>response.json()\<close>, inside its
  \<open>try\<close>: the answer, the token count, then \<open>len(answer)\<close> for the span attribute.
\<close>

definition parse_response :: "json \<Rightarrow> pyexn + json \<times> json" where
  "parse_response data =
     then_exn (getitem_key data ''choices'') (\<lambda>choices.
     then_exn (getitem_0 choices) (\<lambda>choice.
     then_exn (getitem_key choice ''message'') (\<lambda>message.
     then_exn (getitem_key message ''content'') (\<lambda>answer.
     then_exn (get_default data ''usage'' (JObj [])) (\<lambda>usage.
     then_exn (get_default usage ''total_tokens'' (JInt 0)) (\<lambda>tokens_used.
     then_exn (py_len answer) (\<lambda>_. Inr (answer, tokens_used))))))))"

text \<open>
  The two handlers of \<open>_call_openrouter_api\<close>, in their order; any other exception
  propagates.
\<close>

definition api_handlers :: "pyexn \<Rightarrow> pyexn + json \<times> json" where
  "api_handlers e =
     (if exn_cls e = RequestException then Inr (JStr (''API Error: '' @ exn_str e), JInt 0)
      else if exn_cls e = KeyError then Inr (JStr ''Error: Unexpected response format from API'', JInt 0)
      else Inl e)"

definition call_openrouter_api ::
  "'w rag_pipeline \<Rightarrow> string \<Rightarrow> string list \<Rightarrow> 'w \<Rightarrow> (pyexn + json \<times> json) \<times> 'w" where
  "call_openrouter_api p question context_docs w =
     (let prompt = build_prompt question context_docs
      in case api_post p (build_request p prompt) w of
           (Inl e, w') \<Rightarrow> (api_handlers e, w')
         | (Inr data, w') \<Rightarrow>
             (case parse_response data of
                Inl e \<Rightarrow> (api_handlers e, w')
              | Inr r \<Rightarrow> (Inr r, w')))"

text \<open>
  \<open>generate_answer\<close>: the body of the \<open>try\<close>, and the method with its handler.
  \<open>start_time\<close> and \<open>end_time\<close> are the two readings of \<open>time.time()\<close>.
\<close>

definition generate_answer_try ::
  "'w rag_pipeline \<Rightarrow> string \<Rightarrow> int \<Rightarrow> real \<Rightarrow> real \<Rightarrow> 'w \<Rightarrow> (pyexn + answer) \<times> 'w" where
  "generate_answer_try p question max_results start_time end_time w =
     (if question = [] \<or> strip question = []
      then (Inr (create_error_response p ''Question cannot be empty''), w)
      else
        case embedding_generator p [question] w of
          (Inl e, w1) \<Rightarrow> (Inl e, w1)
        | (Inr [], w1) \<Rightarrow> (Inl (Raise IndexError ''list index out of range''), w1)
        | (Inr (query_embedding # _), w1) \<Rightarrow>
            (case db_manager p query_embedding max_results w1 of
               (Inl e, w2) \<Rightarrow> (Inl e, w2)
             | (Inr search_results, w2) \<Rightarrow>
                 let context_docs = sr_documents search_results;
                     sources = sr_metadatas search_results;
                     distances = sr_distances search_results
                 in case (if use_mock_llm p
                          then (Inr (JStr (generate_mock_answer question context_docs), JInt 0), w2)
                          else call_openrouter_api p question context_docs w2) of
                      (Inl e, w3) \<Rightarrow> (Inl e, w3)
                    | (Inr (answer, tokens_used), w3) \<Rightarrow>
                        (case py_len answer of
                           Inl e \<Rightarrow> (Inl e, w3)
                         | Inr _ \<Rightarrow>
                             (Inr \<lparr>ans_answer = answer,
                                   ans_sources = format_sources context_docs sources distances,
                                   ans_model_used = model_slug p,
                                   ans_tokens_used = tokens_used,
                                   ans_processing_time = py_round (end_time - start_time) 2,
                                   ans_context_documents_found = length context_docs\<rparr>, w3))))"

definition generate_answer ::
  "'w rag_pipeline \<Rightarrow> string \<Rightarrow> int \<Rightarrow> real \<Rightarrow> real \<Rightarrow> 'w \<Rightarrow> (pyexn + answer) \<times> 'w" where
  "generate_answer p question max_results start_time end_time w =
     (case generate_answer_try p question max_results start_time end_time w of
        (Inl e, w') \<Rightarrow>
          (Inr (create_error_response p (''Failed to generate answer: '' @ exn_str e)), w')
      | (Inr a, w') \<Rightarrow> (Inr a, w'))"

section \<open>The fallback algorithm as the specification words it\<close>


definition the_hex :: "char \<Rightarrow> nat" where
  "the_hex c = (case hex_digit c of Some d \<Rightarrow> d | None \<Rightarrow> 0)"

text \<open>The value of the \<open>i\<close>-th hex byte-pair of the digest \<open>h\<close>.\<close>

definition spec_byte_pair :: "string \<Rightarrow> nat \<Rightarrow> nat" where
  "spec_byte_pair h i = 16 * the_hex (h ! (2 * i)) + the_hex (h ! (2 * i + 1))"

text \<open>
  Step 3 of the specification, for output dimension \<open>i\<close>, digest \<open>h\<close> and normalized
  text \<open>t\<close>: \<open>(sin(2*pi*(0.6*base + 0.3*char_val + 0.1*length_factor)) + 1) / 2\<close>.
\<close>

definition spec_hash_value :: "string \<Rightarrow> string \<Rightarrow> nat \<Rightarrow> real" where
  "spec_hash_value h t i =
     (let base = real (spec_byte_pair h i) / 255;
          char_val = real (of_char (t ! (i mod length t))) / 255;
          length_factor = ln (real (length t) + 1) / 10;
          v = 0.6 * base + 0.3 * char_val + 0.1 * length_factor
      in (sin (2 * pi * v) + 1) / 2)"

text \<open>Step 4: \<open>(sin(pos * len(text) / 100) + 1) / 2\<close>.\<close>

definition spec_fill_value :: "string \<Rightarrow> nat \<Rightarrow> real" where
  "spec_fill_value t pos = (sin (real pos * real (length t) / 100) + 1) / 2"

text \<open>Step 5: L2 normalization; a vector of magnitude zero is left as it is.\<close>

definition spec_l2_normalize :: "real list \<Rightarrow> real list" where
  "spec_l2_normalize v =
     (let m = sqrt (sum_list (map (\<lambda>x. x\<^sup>2) v))
      in if m = 0 then v else map (\<lambda>x. x / m) v)"

definition spec_fallback_vector :: "nat \<Rightarrow> string \<Rightarrow> string \<Rightarrow> real list" where
  "spec_fallback_vector D h t =
     spec_l2_normalize
       (map (\<lambda>i. if i < 32 then spec_hash_value h t i else spec_fill_value t i) [0..<D])"

text \<open>The vector of steps 3 and 4, before the L2 normalization of step 5.\<close>

definition spec_raw_vector :: "nat \<Rightarrow> string \<Rightarrow> string \<Rightarrow> real list" where
  "spec_raw_vector D h t =
     map (\<lambda>i. if i < 32 then spec_hash_value h t i else spec_fill_value t i) [0..<D]"

text \<open>The distance-to-similarity convention: \<open>max(0, 1 - d/2)\<close>.\<close>

definition spec_similarity :: "real \<Rightarrow> real" where
  "spec_similarity d = max 0 (1 - d / 2)"

section \<open>An in-memory collection\<close>

text \<open>
  Modelled from the spec: the ChromaDB collection behind \<open>ChromaDBManager\<close> is an
  external library and not part of the sources.  This collection follows the data model
  of the specification: a single collection of Documents keyed by string ids, each with a
  text, a vector and a metadata map; \<open>add\<close> inserts or overwrites, \<open>update\<close> overwrites
  only the fields it is given, \<open>delete\<close> removes, \<open>get\<close> returns the Documents with the
  given ids, and \<open>query\<close> returns the \<open>n\<close> nearest Documents in ascending distance.  An id
  that is not a string is refused with a ValueError.  \<open>distance\<close> is the distance function.
\<close>

record stored_doc =
  sd_text :: string
  sd_embedding :: "real list"
  sd_metadata :: metadata

type_synonym mem_store = "(string \<times> stored_doc) list"

text \<open>Modelled from the spec: the \<open>get\<close> method of the collection.\<close>

definition mem_get ::
  "string option list \<Rightarrow> string list option \<Rightarrow> mem_store \<Rightarrow> (pyexn + get_result) \<times> mem_store" where
  "mem_get ids incl s =
     (if None \<in> set ids then (Inl (Raise ValueError ''Expected ID to be a str''), s)
      else
        let found = filter (\<lambda>(i, d). Some i \<in> set ids) s;
            inc = (case incl of None \<Rightarrow> [''metadatas'', ''documents''] | Some xs \<Rightarrow> xs)
        in (Inr \<lparr>gr_ids = map fst found,
                 gr_documents =
                   (if ''documents'' \<in> set inc then Some (map (\<lambda>(i, d). sd_text d) found) else None),
                 gr_metadatas =
                   (if ''metadatas'' \<in> set inc then Some (map (\<lambda>(i, d). sd_metadata d) found) else None),
                 gr_embeddings =
                   (if ''embeddings'' \<in> set inc then Some (map (\<lambda>(i, d). sd_embedding d) found) else None)\<rparr>,
            s))"

text \<open>Modelled from the spec: the \<open>add\<close> method of the collection (insert or overwrite).\<close>

definition mem_add ::
  "string option list \<Rightarrow> string list \<Rightarrow> real list list \<Rightarrow> metadata list \<Rightarrow> mem_store
     \<Rightarrow> (pyexn + unit) \<times> mem_store" where
  "mem_add ids documents embeddings metadatas s =
     (if None \<in> set ids then (Inl (Raise ValueError ''Expected ID to be a str''), s)
      else
        (Inr (),
         fold (\<lambda>(i, t, e, m) st.
                 case i of
                   None \<Rightarrow> st
                 | Some k \<Rightarrow> AList.update k \<lparr>sd_text = t, sd_embedding = e, sd_metadata = m\<rparr> st)
              (zip ids (zip documents (zip embeddings metadatas))) s))"

definition nth_or :: "'a list option \<Rightarrow> nat \<Rightarrow> 'a \<Rightarrow> 'a" where
  "nth_or xs k d = (case xs of None \<Rightarrow> d | Some ys \<Rightarrow> if k < length ys then ys ! k else d)"

text \<open>Modelled from the spec: the \<open>update\<close> method of the collection (only the fields given).\<close>

definition mem_update ::
  "string option list \<Rightarrow> update_params \<Rightarrow> mem_store \<Rightarrow> (pyexn + unit) \<times> mem_store" where
  "mem_update ids params s =
     (if None \<in> set ids then (Inl (Raise ValueError ''Expected ID to be a str''), s)
      else
        (Inr (),
         fold (\<lambda>(k, i) st.
                 map (\<lambda>(j, d).
                        if Some j = i
                        then (j, \<lparr>sd_text = nth_or (up_documents params) k (sd_text d),
                                  sd_embedding = nth_or (up_embeddings params) k (sd_embedding d),
                                  sd_metadata = nth_or (up_metadatas params) k (sd_metadata d)\<rparr>)
                        else (j, d)) st)
              (zip [0..<length ids] ids) s))"

text \<open>Modelled from the spec: the \<open>delete\<close> method of the collection.\<close>

definition mem_delete :: "string option list \<Rightarrow> mem_store \<Rightarrow> (pyexn + unit) \<times> mem_store" where
  "mem_delete ids s =
     (if None \<in> set ids then (Inl (Raise ValueError ''Expected ID to be a str''), s)
      else (Inr (), filter (\<lambda>(i, d). Some i \<notin> set ids) s))"

text \<open>Modelled from the spec: the \<open>query\<close> method of the collection (nearest first).\<close>

definition mem_query ::
  "(real list \<Rightarrow> real list \<Rightarrow> real) \<Rightarrow> real list list \<Rightarrow> int \<Rightarrow> string list \<Rightarrow> mem_store
     \<Rightarrow> (pyexn + query_result) \<times> mem_store" where
  "mem_query distance query_embeddings n incl s =
     (let nearest = (\<lambda>q. take (nat n) (sort_key (\<lambda>(i, d). distance q (sd_embedding d)) s))
      in (Inr \<lparr>qr_documents = map (\<lambda>q. map (\<lambda>(i, d). sd_text d) (nearest q)) query_embeddings,
               qr_distances = map (\<lambda>q. map (\<lambda>(i, d). distance q (sd_embedding d)) (nearest q)) query_embeddings,
               qr_metadatas = map (\<lambda>q. map (\<lambda>(i, d). sd_metadata d) (nearest q)) query_embeddings,
               qr_ids = map (\<lambda>q. map fst (nearest q)) query_embeddings\<rparr>,
          s))"

text \<open>Modelled from the spec: the collection object, missing from the sources, as the five methods above.\<close>

definition mem_collection :: "(real list \<Rightarrow> real list \<Rightarrow> real) \<Rightarrow> mem_store collection" where
  "mem_collection distance =
     \<lparr>coll_get = mem_get,
      coll_add = mem_add,
      coll_update = mem_update,
      coll_delete = mem_delete,
      coll_query = mem_query distance\<rparr>"

section \<open>Backends and stores used as examples\<close>

text \<open>
  A backend honours \<open>n_results\<close> when a query for \<open>n\<close> results returns at most \<open>n\<close>
  documents per query vector.
\<close>

definition respects_n_results :: "'s collection \<Rightarrow> bool" where
  "respects_n_results c =
     (\<forall>qs n incl s. 1 \<le> n \<longrightarrow>
        (case coll_query c qs n incl s of
           (Inl e, s') \<Rightarrow> True
         | (Inr r, s') \<Rightarrow> list_all (\<lambda>ds. int (length ds) \<le> n) (qr_documents r)))"

text \<open>Two small stores, a backend whose every method raises, and a backend that can be
  read but refuses every change.\<close>

definition store2 :: mem_store where
  "store2 = [(''d1'', \<lparr>sd_text = ''one'', sd_embedding = [1], sd_metadata = []\<rparr>),
             (''d2'', \<lparr>sd_text = ''two'', sd_embedding = [0], sd_metadata = []\<rparr>)]"

definition broken_collection :: "unit collection" where
  "broken_collection =
     \<lparr>coll_get = (\<lambda>ids incl s. (Inl (Raise OtherException ''backend down''), s)),
      coll_add = (\<lambda>ids ts es ms s. (Inl (Raise OtherException ''backend down''), s)),
      coll_update = (\<lambda>ids ps s. (Inl (Raise OtherException ''backend down''), s)),
      coll_delete = (\<lambda>ids s. (Inl (Raise OtherException ''backend down''), s)),
      coll_query = (\<lambda>qs n incl s. (Inl (Raise OtherException ''backend down''), s))\<rparr>"

definition read_only_collection :: "mem_store collection" where
  "read_only_collection =
     (mem_collection (\<lambda>_ _. 0))
       \<lparr>coll_update := (\<lambda>ids ps s. (Inl (Raise OtherException ''read-only store''), s)),
        coll_delete := (\<lambda>ids s. (Inl (Raise OtherException ''read-only store''), s))\<rparr>"

text \<open>A backend that refuses an update that changes the text, and no other.\<close>

definition no_text_collection :: "mem_store collection" where
  "no_text_collection =
     (mem_collection (\<lambda>_ _. 0))
       \<lparr>coll_update :=
          (\<lambda>ids ps s. if up_documents ps \<noteq> None
                       then (Inl (Raise OtherException ''text is frozen''), s)
                       else mem_update ids ps s)\<rparr>"

definition store0 :: mem_store where
  "store0 = [(''d1'', \<lparr>sd_text = ''old'', sd_embedding = [1],
                       sd_metadata = [(''timestamp'', MFloat 1), (''text_length'', MInt 3)]\<rparr>)]"


text \<open>
  Pipelines whose collaborators return fixed results and record each call in the world, a
  list of the names of the methods called.
\<close>

definition logging_pipeline ::
  "(pyexn + real list list) \<Rightarrow> (pyexn + search_results) \<Rightarrow> (pyexn + json) \<Rightarrow> bool
     \<Rightarrow> string list rag_pipeline" where
  "logging_pipeline embeddings results response mock =
     \<lparr>embedding_generator = (\<lambda>texts w. (embeddings, w @ [''generate_embeddings''])),
      db_manager = (\<lambda>q n w. (results, w @ [''search''])),
      api_post = (\<lambda>req w. (response, w @ [''post''])),
      model_slug = ''openai/gpt-3.5-turbo'',
      api_key = ''sk-test'',
      api_url = ''https://openrouter.ai/api/v1/chat/completions'',
      http_referer = ''https://github.com/your-username/rag-system'',
      app_title = ''RAG System'',
      request_timeout = 30,
      use_mock_llm = mock\<rparr>"

definition one_result :: search_results where
  "one_result =
     \<lparr>sr_documents = [''The sky is blue.''], sr_distances = [1 / 2],
      sr_metadatas = [[(''source'', MStr ''test'')]], sr_ids = [''d1'']\<rparr>"

definition pipeline_embed_fails :: "string list rag_pipeline" where
  "pipeline_embed_fails =
     logging_pipeline (Inl (Raise RuntimeError ''Failed to generate embeddings: no model''))
       (Inr one_result) (Inr (JObj [])) False"

definition pipeline_search_fails :: "string list rag_pipeline" where
  "pipeline_search_fails =
     logging_pipeline (Inr [[1, 0]]) (Inl (Raise RuntimeError ''Search failed: disk'')) (Inr (JObj [])) False"

definition pipeline_api_fails :: "pyexn \<Rightarrow> string list rag_pipeline" where
  "pipeline_api_fails e = logging_pipeline (Inr [[1, 0]]) (Inr one_result) (Inl e) False"

definition pipeline_api_returns :: "json \<Rightarrow> string list rag_pipeline" where
  "pipeline_api_returns data = logging_pipeline (Inr [[1, 0]]) (Inr one_result) (Inr data) False"

section \<open>Properties of the embedding generator\<close>






















lemma spec_fallback_vector_raw:
  "spec_fallback_vector D h t = spec_l2_normalize (spec_raw_vector D h t)"
  by (simp add: spec_fallback_vector_def spec_raw_vector_def)

























section \<open>Properties of \<open>generate_embeddings\<close>\<close>

text \<open>
  In fallback mode the result has one vector per input text, and a whitespace-only text
  gets the zero vector at its own position.
\<close>

lemma generate_fallback_embeddings_positions:
  "generate_fallback_embeddings H D texts = Inr vs \<Longrightarrow>
     length vs = length texts
     \<and> (\<forall>i < length texts. strip (texts ! i) = [] \<longrightarrow> vs ! i = replicate D 0)"
proof (induction texts arbitrary: vs)
  case Nil
  then show ?case by simp
next
  case (Cons t ts)
  from Cons.prems obtain v vs' where
    v: "fallback_embedding H D t = Inr v" and
    vs': "generate_fallback_embeddings H D ts = Inr vs'" and
    eq: "vs = v # vs'"
    by (auto split: sum.splits)
  have z: "strip t = [] \<Longrightarrow> v = replicate D 0"
    using v by (simp add: fallback_embedding_def)
  from Cons.IH[OF vs'] z show ?case
    by (auto simp add: eq nth_Cons split: nat.splits)
qed

lemma strip_a2: "strip ''a'' = ''a''"
  by (simp add: strip_def isspace_def)

lemma strip_space: "strip '' '' = []"
  by (simp add: strip_def isspace_def)

text \<open>
  Claim C2 says that in both modes the result of \<open>generate_embeddings\<close> is as long as its
  input, a whitespace-only text being mapped to the zero vector at its position.  Model
  mode does not do so: it passes \<open>processed_texts\<close>, from which the whitespace-only texts
  have been dropped, to the model and returns the model's rows as they are.  With a model
  of dimension 2 that returns one row per text, the two texts \<open>"a"\<close> and \<open>" "\<close> yield a
  single row.
\<close>

theorem generate_embeddings_model_mode_drops_whitespace:
  "generate_embeddings H
     \<lparr>embedding_dim = 2, use_fallback = False,
      model = Some (\<lambda>texts. Inr (map (\<lambda>_. [1, 0]) texts))\<rparr>
     [''a'', '' ''] = Inr [[1, 0]]"
  by (simp add: generate_embeddings_def generate_model_embeddings_def strip_a2 strip_space)

section \<open>Properties of the vector store\<close>

lemma generate_document_id_None: "generate_document_id hash_str text metadata = None"
  by (simp add: generate_document_id_def Let_def)

text \<open>
  Claim C1 says that \<open>add_document\<close> computes the document id as a deterministic function of
  text and metadata and returns it.  \<open>_generate_document_id\<close> has no \<open>return\<close>: for every
  text and metadata its result is \<open>None\<close>, and \<open>add_document\<close>, on every backend, either
  raises or returns \<open>None\<close>, never a string id.
\<close>

theorem add_document_never_returns_a_string_id:
  "generate_document_id hash_str text metadata = None
   \<and> (\<forall>i. fst (add_document hash_str c text embedding metadata allow_duplicates now s) \<noteq> Inr (Some i))"
  by (auto simp add: generate_document_id_None add_document_def Let_def
        split: prod.splits sum.splits if_splits)

text \<open>
  On the in-memory collection, which refuses an id that is not a string, adding the
  document of the unit test raises and stores nothing.
\<close>

lemma add_document_in_memory:
  "add_document hash_str (mem_collection distance) ''Test document'' [0.1]
     (Some [(''source'', MStr ''test'')]) False now []
   = (Inl (Raise RuntimeError ''Document storage failed: Expected ID to be a str''), [])"
  by (simp add: add_document_def generate_document_id_None document_exists_def Let_def
        mem_collection_def mem_get_def mem_add_def)

lemma filter_first_match:
  "map_of s k = Some d \<Longrightarrow> \<exists>rest. filter (\<lambda>(i, d). i = k) s = (k, d) # rest"
  by (induction s) (auto split: if_splits)

lemma filter_no_match:
  "map_of s k = None \<Longrightarrow> filter (\<lambda>(i, d). i = k) s = []"
  by (induction s) (auto split: if_splits)

lemma map_of_set_text:
  "map_of s k = Some d \<Longrightarrow>
   map_of (map (\<lambda>(j, d). if j = k then (j, \<lparr>sd_text = t, sd_embedding = sd_embedding d,
                                              sd_metadata = sd_metadata d\<rparr>) else (j, d)) s) k
     = Some \<lparr>sd_text = t, sd_embedding = sd_embedding d, sd_metadata = sd_metadata d\<rparr>"
  by (induction s) (auto split: if_splits)

lemma mem_exists:
  "map_of s k = Some d \<Longrightarrow> document_exists (mem_collection distance) (Some k) s = (True, s)"
  using filter_first_match[of s k d]
  by (auto simp add: document_exists_def mem_collection_def mem_get_def Let_def)

lemma mem_not_exists:
  "map_of s k = None \<Longrightarrow> document_exists (mem_collection distance) (Some k) s = (False, s)"
  using filter_no_match[of s k]
  by (simp add: document_exists_def mem_collection_def mem_get_def Let_def)

lemma mem_get_document:
  "map_of s k = Some d \<Longrightarrow>
   get_document (mem_collection distance) k s
     = (Inr (Some \<lparr>dd_id = k, dd_document = Some (sd_text d), dd_metadata = Some (sd_metadata d),
                   dd_embedding = Some (sd_embedding d)\<rparr>), s)"
  using filter_first_match[of s k d]
  by (auto simp add: get_document_def get_document_try_def mem_collection_def mem_get_def Let_def
        first_if_any_def)

lemma mem_update_text_only:
  "update_document_try (mem_collection distance) k (Some t) None None now s
     = (case document_exists (mem_collection distance) (Some k) s of
          (False, s1) \<Rightarrow> (Inr False, s1)
        | (True, s1) \<Rightarrow>
            (Inr True,
             map (\<lambda>(j, d). if j = k then (j, \<lparr>sd_text = t, sd_embedding = sd_embedding d,
                                              sd_metadata = sd_metadata d\<rparr>) else (j, d)) s1))"
  by (simp add: update_document_try_def Let_def mem_collection_def mem_update_def nth_or_def
        split: prod.splits bool.splits)

text \<open>
  Claim C3, amended.  On the in-memory collection, \<open>update_document\<close> with only a new text
  on an existing id returns true, and a subsequent \<open>get_document\<close> returns the new text
  with the metadata (so \<open>timestamp\<close> and \<open>text_length\<close>) and the embedding unchanged:
  the method stamps metadata only when a metadata dict is passed.  On every backend,
  \<open>update_document\<close> on an id whose existence check fails returns false without raising,
  and a text-only update of an existing id sends the backend the new text and nothing else.
\<close>

theorem update_document_text_only:
  "(map_of s doc_id = Some d \<longrightarrow>
      (\<exists>s'. update_document (mem_collection distance) doc_id (Some new_text) None None now s = (Inr True, s')
            \<and> get_document (mem_collection distance) doc_id s'
                = (Inr (Some \<lparr>dd_id = doc_id, dd_document = Some new_text,
                               dd_metadata = Some (sd_metadata d),
                               dd_embedding = Some (sd_embedding d)\<rparr>), s')))
   \<and> (document_exists c (Some doc_id) w = (False, w') \<longrightarrow>
        update_document c doc_id any_text embedding metadata now w = (Inr False, w'))
   \<and> update_document_try c doc_id (Some new_text) None None now w
        = (case document_exists c (Some doc_id) w of
             (False, w1) \<Rightarrow> (Inr False, w1)
           | (True, w1) \<Rightarrow>
               (case coll_update c [Some doc_id]
                       \<lparr>up_documents = Some [new_text], up_embeddings = None,
                          up_metadatas = None\<rparr> w1 of
                  (Inl e, w2) \<Rightarrow> (Inl e, w2)
                | (Inr u, w2) \<Rightarrow> (Inr True, w2)))"
proof (intro conjI impI)
  assume m: "map_of s doc_id = Some d"
  let ?s' = "map (\<lambda>(j, d). if j = doc_id then (j, \<lparr>sd_text = new_text, sd_embedding = sd_embedding d,
                                              sd_metadata = sd_metadata d\<rparr>) else (j, d)) s"
  have u: "update_document (mem_collection distance) doc_id (Some new_text) None None now s = (Inr True, ?s')"
    by (simp add: update_document_def mem_update_text_only mem_exists[OF m])
  have g: "get_document (mem_collection distance) doc_id ?s'
             = (Inr (Some \<lparr>dd_id = doc_id, dd_document = Some new_text,
                               dd_metadata = Some (sd_metadata d),
                               dd_embedding = Some (sd_embedding d)\<rparr>), ?s')"
    using mem_get_document[OF map_of_set_text[OF m, of new_text], of distance] by simp
  from u g show "\<exists>s'. update_document (mem_collection distance) doc_id (Some new_text) None None now s = (Inr True, s')
            \<and> get_document (mem_collection distance) doc_id s'
                = (Inr (Some \<lparr>dd_id = doc_id, dd_document = Some new_text,
                               dd_metadata = Some (sd_metadata d),
                               dd_embedding = Some (sd_embedding d)\<rparr>), s')"
    by blast
next
  assume "document_exists c (Some doc_id) w = (False, w')"
  then show "update_document c doc_id any_text embedding metadata now w = (Inr False, w')"
    by (simp add: update_document_def update_document_try_def)
next
  show "update_document_try c doc_id (Some new_text) None None now w
        = (case document_exists c (Some doc_id) w of
             (False, w1) \<Rightarrow> (Inr False, w1)
           | (True, w1) \<Rightarrow>
               (case coll_update c [Some doc_id]
                       \<lparr>up_documents = Some [new_text], up_embeddings = None,
                          up_metadatas = None\<rparr> w1 of
                  (Inl e, w2) \<Rightarrow> (Inl e, w2)
                | (Inr u, w2) \<Rightarrow> (Inr True, w2)))"
    by (simp add: update_document_try_def Let_def split: prod.splits bool.splits)
qed

text \<open>
  Claim C3 as stated fails: a document stored at time 1 with text \<open>"old"\<close> is updated at
  time 2 with only the text \<open>"new text"\<close>; the update returns true and the new text is
  read back, but \<open>timestamp\<close> is still 1 and \<open>text_length\<close> still 3.
\<close>

theorem update_document_timestamp_counterexample:
  "update_document (mem_collection (\<lambda>_ _. 0)) ''d1'' (Some ''new text'') None None 2 store0
     = (Inr True,
        [(''d1'', \<lparr>sd_text = ''new text'', sd_embedding = [1],
                   sd_metadata = [(''timestamp'', MFloat 1), (''text_length'', MInt 3)]\<rparr>)])
   \<and> get_document (mem_collection (\<lambda>_ _. 0)) ''d1''
        [(''d1'', \<lparr>sd_text = ''new text'', sd_embedding = [1],
                   sd_metadata = [(''timestamp'', MFloat 1), (''text_length'', MInt 3)]\<rparr>)]
     = (Inr (Some \<lparr>dd_id = ''d1'', dd_document = Some ''new text'',
                   dd_metadata = Some [(''timestamp'', MFloat 1), (''text_length'', MInt 3)],
                   dd_embedding = Some [1]\<rparr>),
        [(''d1'', \<lparr>sd_text = ''new text'', sd_embedding = [1],
                   sd_metadata = [(''timestamp'', MFloat 1), (''text_length'', MInt 3)]\<rparr>)])
   \<and> MFloat 1 \<noteq> MFloat 2 \<and> MInt 3 \<noteq> MInt (int (length ''new text''))"
  by (simp add: store0_def update_document_def mem_update_text_only mem_exists mem_get_document)

theorem update_document_text_only_witness:
  "map_of store0 ''d1'' = Some \<lparr>sd_text = ''old'', sd_embedding = [1],
                       sd_metadata = [(''timestamp'', MFloat 1), (''text_length'', MInt 3)]\<rparr>
   \<and> (\<exists>s'. update_document (mem_collection (\<lambda>_ _. 0)) ''d1'' (Some ''new text'') None None 2 store0 = (Inr True, s')
            \<and> get_document (mem_collection (\<lambda>_ _. 0)) ''d1'' s'
                = (Inr (Some \<lparr>dd_id = ''d1'', dd_document = Some ''new text'',
                               dd_metadata = Some [(''timestamp'', MFloat 1), (''text_length'', MInt 3)],
                               dd_embedding = Some [1]\<rparr>), s'))
   \<and> document_exists (mem_collection (\<lambda>_ _. 0)) (Some ''zz'') store0 = (False, store0)
   \<and> update_document (mem_collection (\<lambda>_ _. 0)) ''zz'' (Some ''new text'') None None 2 store0 = (Inr False, store0)"
proof -
  have a: "map_of store0 ''d1'' = Some \<lparr>sd_text = ''old'', sd_embedding = [1],
                       sd_metadata = [(''timestamp'', MFloat 1), (''text_length'', MInt 3)]\<rparr>"
    by (simp add: store0_def)
  have b: "document_exists (mem_collection (\<lambda>_ _. 0)) (Some ''zz'') store0 = (False, store0)"
    by (rule mem_not_exists) (simp add: store0_def)
  note t1 = update_document_text_only[where s = store0 and doc_id = "''d1''"
        and distance = "\<lambda>_ _. 0" and new_text = "''new text''" and now = 2,
        THEN conjunct1, rule_format, OF a]
  note t2 = update_document_text_only[where c = "mem_collection (\<lambda>_ _. 0)" and doc_id = "''zz''"
        and any_text = "Some ''new text''" and embedding = None and metadata = None and now = 2,
        THEN conjunct2, THEN conjunct1, rule_format, OF b]
  show ?thesis
    using a b t1 t2 by simp
qed

lemma mem_respects_n_results: "respects_n_results (mem_collection distance)"
  by (auto simp add: respects_n_results_def mem_collection_def mem_query_def Let_def list_all_iff)

lemma first_or_empty_bound:
  "list_all (\<lambda>ds. int (length ds) \<le> n) xs \<Longrightarrow> 0 \<le> n \<Longrightarrow> int (length (first_or_empty xs)) \<le> n"
  by (cases xs) (simp_all add: first_or_empty_def)

text \<open>
  Claim C9.  \<open>search\<close> queries the backend with the requested count clamped to the interval
  from 1 to 50: the clamped count is \<open>max 1 (min k 50)\<close>, it is 50 for \<open>k = 100\<close> and 1
  for \<open>k = 0\<close> and every \<open>k\<close> below 1, and on a backend that honours \<open>n_results\<close> a
  successful search returns at most 50 documents.
\<close>

theorem search_clamps_n_results:
  "search c q k s
     = wrap_search_results
         (coll_query c [q] (max 1 (min k 50)) [''documents'', ''distances'', ''metadatas''] s)
   \<and> 1 \<le> clamp_n_results k \<and> clamp_n_results k \<le> 50
   \<and> clamp_n_results 100 = 50 \<and> clamp_n_results 0 = 1
   \<and> (k < 1 \<longrightarrow> clamp_n_results k = 1)
   \<and> (respects_n_results c \<and> search c q k s = (Inr r, s') \<longrightarrow> length (sr_documents r) \<le> 50)"
proof -
  have a: "search c q k s
     = wrap_search_results
         (coll_query c [q] (max 1 (min k 50)) [''documents'', ''distances'', ''metadatas''] s)"
    by (simp add: search_def clamp_n_results_def MAX_SEARCH_DOCUMENTS_def)
  have b: "1 \<le> clamp_n_results k \<and> clamp_n_results k \<le> 50
   \<and> clamp_n_results 100 = 50 \<and> clamp_n_results 0 = 1
   \<and> (k < 1 \<longrightarrow> clamp_n_results k = 1)"
    by (simp add: clamp_n_results_def MAX_SEARCH_DOCUMENTS_def)
  have c: "length (sr_documents r) \<le> 50"
    if resp: "respects_n_results c" and ok: "search c q k s = (Inr r, s')"
  proof -
    let ?n = "max 1 (min k 50)"
    obtain res s1 where qr: "coll_query c [q] ?n [''documents'', ''distances'', ''metadatas''] s = (res, s1)"
      by (cases "coll_query c [q] ?n [''documents'', ''distances'', ''metadatas''] s") auto
    from ok a qr obtain qres where res: "res = Inr qres"
      and r: "sr_documents r = first_or_empty (qr_documents qres)"
      by (cases res) (auto simp add: wrap_search_results_def)
    have n1: "1 \<le> ?n" by simp
    note resp[unfolded respects_n_results_def, rule_format, OF n1,
        where qs = "[q]" and incl = "[''documents'', ''distances'', ''metadatas'']" and s = s]
    then have "list_all (\<lambda>ds. int (length ds) \<le> ?n) (qr_documents qres)"
      by (simp add: qr res)
    then have "int (length (first_or_empty (qr_documents qres))) \<le> ?n"
      by (rule first_or_empty_bound) simp
    then show ?thesis using r by simp
  qed
  from a b c show ?thesis by blast
qed

theorem search_clamps_n_results_witness:
  "(0::int) < 1
   \<and> clamp_n_results 0 = 1
   \<and> respects_n_results (mem_collection (\<lambda>_ _. 0))
   \<and> search (mem_collection (\<lambda>_ _. 0)) [1] 0 store2
       = (Inr \<lparr>sr_documents = [''one''], sr_distances = [0], sr_metadatas = [[]], sr_ids = [''d1'']\<rparr>,
          store2)
   \<and> length (sr_documents \<lparr>sr_documents = [''one''], sr_distances = [0], sr_metadatas = [[]],
                            sr_ids = [''d1'']\<rparr>) \<le> 50"
proof -
  have s: "search (mem_collection (\<lambda>_ _. 0)) [1] 0 store2
       = (Inr \<lparr>sr_documents = [''one''], sr_distances = [0], sr_metadatas = [[]], sr_ids = [''d1'']\<rparr>,
          store2)"
    by (simp add: search_def clamp_n_results_def MAX_SEARCH_DOCUMENTS_def wrap_search_results_def
          mem_collection_def mem_query_def store2_def first_or_empty_def Let_def)
  have r: "respects_n_results (mem_collection (\<lambda>_ _. 0))"
    by (rule mem_respects_n_results)
  note t = search_clamps_n_results[where c = "mem_collection (\<lambda>_ _. 0)" and q = "[1]" and k = 0
      and s = store2]
  have k: "(0::int) < 1" by simp
  from t have t1: "clamp_n_results 0 = 1" using k by blast
  from t r s have t2: "length (sr_documents \<lparr>sr_documents = [''one''], sr_distances = [0],
      sr_metadatas = [[]], sr_ids = [''d1'']\<rparr>) \<le> 50"
    by blast
  from k t1 r s t2 show ?thesis by blast
qed

lemma document_exists_raises:
  "isl (fst (coll_get c [doc_id] None s)) \<Longrightarrow> fst (document_exists c doc_id s) = False"
  by (cases "coll_get c [doc_id] None s") (auto simp add: document_exists_def isl_def)

lemma update_document_try_build:
  assumes "document_exists c (Some doc_id) s = (True, s1)"
  shows "update_document_try c doc_id new_text embedding metadata now s
           = (case coll_update c [Some doc_id] (build_update_params new_text embedding metadata now) s1 of
                (Inl x, s2) \<Rightarrow> (Inl x, s2)
              | (Inr u, s2) \<Rightarrow> (Inr True, s2))"
  unfolding update_document_try_def build_update_params_def Let_def assms
  by (simp only: prod.case bool.case)

text \<open>
  Claim C10.  For every backend and document id, \<open>update_document\<close>, \<open>delete_document\<close>
  and \<open>get_document\<close> return a value and never raise; \<open>update_document\<close> and
  \<open>delete_document\<close> return false when the backend raises during the existence check or
  during the mutation itself, that is when \<open>collection.update\<close>, called with the parameters
  the method builds, or \<open>collection.delete\<close> raises; and \<open>get_document\<close> returns \<open>None\<close>
  when the backend raises.
\<close>

theorem store_methods_never_raise:
  "(\<exists>b s'. update_document c doc_id new_text embedding metadata now s = (Inr b, s'))
   \<and> (\<exists>b s'. delete_document c doc_id s = (Inr b, s'))
   \<and> (\<exists>r s'. get_document c doc_id s = (Inr r, s'))
   \<and> (isl (fst (coll_get c [Some doc_id] None s)) \<longrightarrow>
        fst (update_document c doc_id new_text embedding metadata now s) = Inr False
        \<and> fst (delete_document c doc_id s) = Inr False)
   \<and> (document_exists c (Some doc_id) s = (True, s1)
        \<and> isl (fst (coll_update c [Some doc_id]
                      (build_update_params new_text embedding metadata now) s1)) \<longrightarrow>
        fst (update_document c doc_id new_text embedding metadata now s) = Inr False)
   \<and> (document_exists c (Some doc_id) s = (True, s1)
        \<and> isl (fst (coll_delete c [Some doc_id] s1)) \<longrightarrow>
        fst (delete_document c doc_id s) = Inr False)
   \<and> (isl (fst (coll_get c [Some doc_id] (Some [''documents'', ''metadatas'', ''embeddings'']) s)) \<longrightarrow>
        fst (get_document c doc_id s) = Inr None)"
proof (intro conjI impI)
  show "\<exists>b s'. update_document c doc_id new_text embedding metadata now s = (Inr b, s')"
    by (cases "update_document_try c doc_id new_text embedding metadata now s")
       (auto simp add: update_document_def split: sum.splits)
  show "\<exists>b s'. delete_document c doc_id s = (Inr b, s')"
    by (cases "delete_document_try c doc_id s")
       (auto simp add: delete_document_def split: sum.splits)
  show "\<exists>r s'. get_document c doc_id s = (Inr r, s')"
    by (cases "get_document_try c doc_id s")
       (auto simp add: get_document_def split: sum.splits)
next
  assume a: "isl (fst (coll_get c [Some doc_id] None s))"
  obtain s1 where e: "document_exists c (Some doc_id) s = (False, s1)"
    using document_exists_raises[OF a] by (cases "document_exists c (Some doc_id) s") auto
  show "fst (update_document c doc_id new_text embedding metadata now s) = Inr False"
    by (simp add: update_document_def update_document_try_def e)
  show "fst (delete_document c doc_id s) = Inr False"
    by (simp add: delete_document_def delete_document_try_def e)
next
  assume a: "document_exists c (Some doc_id) s = (True, s1)
        \<and> isl (fst (coll_update c [Some doc_id]
                      (build_update_params new_text embedding metadata now) s1))"
  then have e: "document_exists c (Some doc_id) s = (True, s1)"
    and u: "isl (fst (coll_update c [Some doc_id]
                      (build_update_params new_text embedding metadata now) s1))" by simp_all
  have "\<exists>x s2. update_document_try c doc_id new_text embedding metadata now s = (Inl x, s2)"
    using u
    by (cases "coll_update c [Some doc_id] (build_update_params new_text embedding metadata now) s1")
       (auto simp add: update_document_try_build[OF e] isl_def)
  then show "fst (update_document c doc_id new_text embedding metadata now s) = Inr False"
    by (auto simp add: update_document_def)
next
  assume a: "document_exists c (Some doc_id) s = (True, s1)
        \<and> isl (fst (coll_delete c [Some doc_id] s1))"
  then show "fst (delete_document c doc_id s) = Inr False"
    by (cases "coll_delete c [Some doc_id] s1")
       (auto simp add: delete_document_def delete_document_try_def isl_def)
next
  assume "isl (fst (coll_get c [Some doc_id] (Some [''documents'', ''metadatas'', ''embeddings'']) s))"
  then show "fst (get_document c doc_id s) = Inr None"
    by (cases "coll_get c [Some doc_id] (Some [''documents'', ''metadatas'', ''embeddings'']) s")
       (auto simp add: get_document_def get_document_try_def isl_def)
qed

theorem store_methods_never_raise_witness:
  "isl (fst (coll_get broken_collection [Some ''d1''] None ()))
   \<and> fst (update_document broken_collection ''d1'' (Some ''new text'') None None 2 ()) = Inr False
   \<and> fst (delete_document broken_collection ''d1'' ()) = Inr False
   \<and> isl (fst (coll_get broken_collection [Some ''d1''] (Some [''documents'', ''metadatas'', ''embeddings'']) ()))
   \<and> fst (get_document broken_collection ''d1'' ()) = Inr None
   \<and> document_exists no_text_collection (Some ''d1'') store0 = (True, store0)
   \<and> build_update_params (Some ''new text'') None None 2
       = \<lparr>up_documents = Some [''new text''], up_embeddings = None, up_metadatas = None\<rparr>
   \<and> isl (fst (coll_update no_text_collection [Some ''d1'']
              (build_update_params (Some ''new text'') None None 2) store0))
   \<and> fst (update_document no_text_collection ''d1'' (Some ''new text'') None None 2 store0) = Inr False
   \<and> document_exists read_only_collection (Some ''d1'') store0 = (True, store0)
   \<and> isl (fst (coll_delete read_only_collection [Some ''d1''] store0))
   \<and> fst (delete_document read_only_collection ''d1'' store0) = Inr False"
proof -
  have g: "isl (fst (coll_get broken_collection [Some ''d1''] None ()))"
    by (simp add: broken_collection_def)
  have g': "isl (fst (coll_get broken_collection [Some ''d1''] (Some [''documents'', ''metadatas'', ''embeddings'']) ()))"
    by (simp add: broken_collection_def)
  have e: "document_exists read_only_collection (Some ''d1'') store0 = (True, store0)"
    by (simp add: document_exists_def read_only_collection_def mem_collection_def mem_get_def store0_def Let_def)
  have e': "document_exists no_text_collection (Some ''d1'') store0 = (True, store0)"
    by (simp add: document_exists_def no_text_collection_def mem_collection_def mem_get_def store0_def Let_def)
  have p: "build_update_params (Some ''new text'') None None 2
       = \<lparr>up_documents = Some [''new text''], up_embeddings = None, up_metadatas = None\<rparr>"
    by (simp add: build_update_params_def)
  have u: "isl (fst (coll_update no_text_collection [Some ''d1'']
              (build_update_params (Some ''new text'') None None 2) store0))"
    by (simp add: p no_text_collection_def)
  have d: "isl (fst (coll_delete read_only_collection [Some ''d1''] store0))"
    by (simp add: read_only_collection_def)
  note t1 = store_methods_never_raise[where c = broken_collection and doc_id = "''d1''"
      and new_text = "Some ''new text''" and embedding = None and metadata = None and now = 2
      and s = "()"]
  note t2 = store_methods_never_raise[where c = no_text_collection and doc_id = "''d1''"
      and new_text = "Some ''new text''" and embedding = None and metadata = None and now = 2
      and s = store0 and ?s1.0 = store0]
  note t3 = store_methods_never_raise[where c = read_only_collection and doc_id = "''d1''"
      and new_text = "Some ''new text''" and embedding = None and metadata = None and now = 2
      and s = store0 and ?s1.0 = store0]
  note a1 = t1[THEN conjunct2, THEN conjunct2, THEN conjunct2, THEN conjunct1, rule_format, OF g]
  note a2 = t1[THEN conjunct2, THEN conjunct2, THEN conjunct2, THEN conjunct2, THEN conjunct2,
      THEN conjunct2, rule_format, OF g']
  note a3 = t2[THEN conjunct2, THEN conjunct2, THEN conjunct2, THEN conjunct2, THEN conjunct1,
      rule_format, OF conjI[OF e' u]]
  note a4 = t3[THEN conjunct2, THEN conjunct2, THEN conjunct2, THEN conjunct2, THEN conjunct2,
      THEN conjunct1, rule_format, OF conjI[OF e d]]
  show ?thesis
    by (intro conjI) (rule g a1[THEN conjunct1] a1[THEN conjunct2] g' a2 e' p u a3 e d a4)+
qed

section \<open>Properties of the orchestrator\<close>

lemma round_half_even_of_int: "round_half_even (of_int n) = n"
  by (simp add: round_half_even_def)

lemma round_half_even_lower: "\<lfloor>r\<rfloor> \<le> round_half_even r"
  by (simp add: round_half_even_def Let_def)

lemma round_half_even_upper: "round_half_even r \<le> \<lfloor>r\<rfloor> + 1"
  by (simp add: round_half_even_def Let_def)

lemma round_half_even_between:
  assumes "of_int a \<le> r" "r \<le> of_int b"
  shows "a \<le> round_half_even r \<and> round_half_even r \<le> b"
proof
  have "a \<le> \<lfloor>r\<rfloor>" using assms(1) by (simp add: le_floor_iff)
  then show "a \<le> round_half_even r" using round_half_even_lower[of r] by linarith
  show "round_half_even r \<le> b"
  proof (cases "r = of_int b")
    case True
    then show ?thesis by (simp add: round_half_even_of_int)
  next
    case False
    with assms(2) have "r < of_int b" by simp
    then have "\<lfloor>r\<rfloor> < b" by (simp add: floor_less_iff)
    then show ?thesis using round_half_even_upper[of r] by linarith
  qed
qed

lemma round_half_even_near: "\<bar>of_int (round_half_even r) - r\<bar> \<le> 1 / 2"
proof -
  have "of_int \<lfloor>r\<rfloor> \<le> r" "r < of_int \<lfloor>r\<rfloor> + 1" by linarith+
  then show ?thesis
    by (auto simp add: round_half_even_def Let_def)
qed

lemma py_round_unit: 
  assumes "0 \<le> x" "x \<le> 1"
  shows "0 \<le> py_round x 3 \<and> py_round x 3 \<le> 1"
proof -
  have "of_int 0 \<le> x * 10 ^ 3" "x * 10 ^ 3 \<le> of_int 1000" using assms by simp_all
  from round_half_even_between[OF this]
  have "0 \<le> round_half_even (x * 10 ^ 3)" "round_half_even (x * 10 ^ 3) \<le> 1000" by simp_all
  then have "0 \<le> (of_int (round_half_even (x * 10 ^ 3)) :: real)"
    "(of_int (round_half_even (x * 10 ^ 3)) :: real) \<le> 1000" by simp_all
  then show ?thesis by (simp add: py_round_def)
qed

lemma py_round_nonneg: "0 \<le> x \<Longrightarrow> 0 \<le> py_round x n"
proof -
  assume "0 \<le> x"
  then have "of_int 0 \<le> x * 10 ^ n" by simp
  then have "0 \<le> \<lfloor>x * 10 ^ n\<rfloor>" by (simp add: le_floor_iff)
  then have "0 \<le> round_half_even (x * 10 ^ n)" using round_half_even_lower[of "x * 10 ^ n"] by linarith
  then show ?thesis by (simp add: py_round_def)
qed

lemma py_round_near: "\<bar>py_round x 3 - x\<bar> \<le> 1 / 2000"
proof -
  have "\<bar>of_int (round_half_even (x * 1000)) - x * 1000\<bar> \<le> 1 / 2"
    by (rule round_half_even_near)
  then show ?thesis by (simp add: py_round_def field_simps abs_le_iff)
qed

lemma format_sources_length:
  "length (format_sources documents metadatas distances)
     = min (length documents) (min (length metadatas) (length distances))"
  by (simp add: format_sources_def)

lemma format_sources_score:
  assumes "i < length (format_sources documents metadatas distances)"
  shows "src_score (format_sources documents metadatas distances ! i)
           = py_round (spec_similarity (distances ! i)) 3"
  using assms by (simp add: format_sources_def spec_similarity_def Let_def)

text \<open>
  Claim C6.  For every retrieved distance \<open>d\<close>, \<open>_format_sources\<close> computes the similarity
  \<open>max(0, 1 - d/2)\<close> and reports it rounded to three decimals: the similarity is never
  negative, it is 1 at \<open>d = 0\<close> and 0 at \<open>d = 2\<close> and at \<open>d = 4\<close>, where the reported
  score is the same, the reported score differs from the similarity by at most 0.0005, is
  never negative and, for a distance (that is \<open>d \<ge> 0\<close>), is at most 1.
\<close>

theorem format_sources_similarity:
  "(\<forall>i < length (format_sources documents metadatas distances).
      src_score (format_sources documents metadatas distances ! i)
        = py_round (spec_similarity (distances ! i)) 3
      \<and> \<bar>src_score (format_sources documents metadatas distances ! i)
           - spec_similarity (distances ! i)\<bar> \<le> 1 / 2000
      \<and> 0 \<le> src_score (format_sources documents metadatas distances ! i)
      \<and> (0 \<le> distances ! i \<longrightarrow> src_score (format_sources documents metadatas distances ! i) \<le> 1))
   \<and> spec_similarity d = max 0 (1 - d / 2) \<and> 0 \<le> spec_similarity d
   \<and> spec_similarity 0 = 1 \<and> spec_similarity 2 = 0 \<and> spec_similarity 4 = 0
   \<and> py_round (spec_similarity 0) 3 = 1 \<and> py_round (spec_similarity 2) 3 = 0
   \<and> py_round (spec_similarity 4) 3 = 0"
proof -
  have nn: "0 \<le> spec_similarity x" for x by (simp add: spec_similarity_def)
  have le1: "0 \<le> x \<Longrightarrow> spec_similarity x \<le> 1" for x by (simp add: spec_similarity_def)
  have a: "src_score (format_sources documents metadatas distances ! i)
        = py_round (spec_similarity (distances ! i)) 3
      \<and> \<bar>src_score (format_sources documents metadatas distances ! i)
           - spec_similarity (distances ! i)\<bar> \<le> 1 / 2000
      \<and> 0 \<le> src_score (format_sources documents metadatas distances ! i)
      \<and> (0 \<le> distances ! i \<longrightarrow> src_score (format_sources documents metadatas distances ! i) \<le> 1)"
    if i: "i < length (format_sources documents metadatas distances)" for i
    using py_round_near[of "spec_similarity (distances ! i)"] py_round_nonneg[OF nn, of "distances ! i" 3]
      py_round_unit[OF nn le1, of "distances ! i"]
    by (simp add: format_sources_score[OF i])
  have b: "spec_similarity 0 = 1 \<and> spec_similarity 2 = 0 \<and> spec_similarity 4 = 0"
    by (simp add: spec_similarity_def)
  have c: "py_round 1 3 = 1 \<and> py_round 0 3 = 0"
    using round_half_even_of_int[of 1000] round_half_even_of_int[of 0]
    by (simp add: py_round_def)
  have a': "\<forall>i < length (format_sources documents metadatas distances).
      src_score (format_sources documents metadatas distances ! i)
        = py_round (spec_similarity (distances ! i)) 3
      \<and> \<bar>src_score (format_sources documents metadatas distances ! i)
           - spec_similarity (distances ! i)\<bar> \<le> 1 / 2000
      \<and> 0 \<le> src_score (format_sources documents metadatas distances ! i)
      \<and> (0 \<le> distances ! i \<longrightarrow> src_score (format_sources documents metadatas distances ! i) \<le> 1)"
    using a by blast
  have e: "spec_similarity d = max 0 (1 - d / 2)" by (simp add: spec_similarity_def)
  have c': "py_round (spec_similarity 0) 3 = 1 \<and> py_round (spec_similarity 2) 3 = 0
   \<and> py_round (spec_similarity 4) 3 = 0"
    using b c by simp
  from a' e nn[of d] b c' show ?thesis by blast
qed

lemma py_round_three_quarters: "py_round (3 / 4) 3 = 3 / 4"
  using round_half_even_of_int[of 750] by (simp add: py_round_def)

theorem format_sources_similarity_witness:
  "(0::nat) < length (format_sources [''The sky is blue.''] [[]] [1 / 2])
   \<and> src_score (format_sources [''The sky is blue.''] [[]] [1 / 2] ! 0) = py_round (spec_similarity (1 / 2)) 3
   \<and> (0::real) \<le> [1 / 2] ! 0
   \<and> src_score (format_sources [''The sky is blue.''] [[]] [1 / 2] ! 0) \<le> 1
   \<and> src_score (format_sources [''The sky is blue.''] [[]] [1 / 2] ! 0) = 3 / 4"
proof -
  have l: "(0::nat) < length (format_sources [''The sky is blue.''] [[]] [1 / 2])"
    by (simp add: format_sources_def)
  have d: "(0::real) \<le> [1 / 2] ! 0" by simp
  note t = format_sources_similarity[where documents = "[''The sky is blue.'']" and metadatas = "[[]]"
      and distances = "[1 / 2]", THEN conjunct1, rule_format, OF l]
  have s: "src_score (format_sources [''The sky is blue.''] [[]] [1 / 2] ! 0) = 3 / 4"
    using py_round_three_quarters by (simp add: format_sources_def)
  from t have t1: "src_score (format_sources [''The sky is blue.''] [[]] [1 / 2] ! 0)
      = py_round (spec_similarity ([1 / 2] ! 0)) 3" by (rule conjunct1)
  from t have t2: "src_score (format_sources [''The sky is blue.''] [[]] [1 / 2] ! 0) \<le> 1"
    using d by blast
  from l t1 d t2 s show ?thesis by simp
qed

lemma strip_Nil: "strip [] = []"
  by (simp add: strip_def)

lemma generate_answer_returns:
  "\<exists>a w'. generate_answer p question max_results start_time end_time w = (Inr a, w')"
  by (cases "generate_answer_try p question max_results start_time end_time w")
     (auto simp add: generate_answer_def split: sum.splits)

text \<open>
  Claim C8.  For every question that is empty or whitespace-only after trimming,
  \<open>generate_answer\<close> returns the error Answer whose answer is
  \<open>"Error: Question cannot be empty"\<close>, with no sources and with \<open>tokens_used\<close>,
  \<open>processing_time\<close> and \<open>context_documents_found\<close> zero.  No collaborator is called: the
  result is the same whatever the embedding generator, the store and the API do, and the
  world they act on is returned unchanged.
\<close>

theorem generate_answer_empty_question:
  "strip question = [] \<longrightarrow>
     generate_answer p question max_results start_time end_time w
       = (Inr \<lparr>ans_answer = JStr ''Error: Question cannot be empty'',
               ans_sources = [],
               ans_model_used = model_slug p,
               ans_tokens_used = JInt 0,
               ans_processing_time = 0,
               ans_context_documents_found = 0\<rparr>, w)"
  by (simp add: generate_answer_def generate_answer_try_def create_error_response_def)

theorem generate_answer_empty_question_witness:
  "strip ''   '' = []
   \<and> generate_answer (logging_pipeline (Inr [[1, 0]]) (Inr one_result) (Inr (JObj [])) False)
        ''   '' 3 0 1 []
       = (Inr \<lparr>ans_answer = JStr ''Error: Question cannot be empty'',
               ans_sources = [],
               ans_model_used = ''openai/gpt-3.5-turbo'',
               ans_tokens_used = JInt 0,
               ans_processing_time = 0,
               ans_context_documents_found = 0\<rparr>, [])"
proof -
  have s: "strip ''   '' = []" by (simp add: strip_def isspace_def)
  note t = generate_answer_empty_question[rule_format, OF s,
      where p = "logging_pipeline (Inr [[1, 0]]) (Inr one_result) (Inr (JObj [])) False"
        and max_results = 3 and start_time = 0 and end_time = 1 and w = "[]"]
  show ?thesis using s t by (simp add: logging_pipeline_def)
qed

text \<open>
  The body of \<open>generate_answer\<close> at each stage at which a collaborator may raise.
\<close>

lemma generate_answer_try_embed:
  assumes "strip question \<noteq> []" "embedding_generator p [question] w = (Inl e, w1)"
  shows "generate_answer_try p question k t0 t1 w = (Inl e, w1)"
  using assms by (auto simp add: generate_answer_try_def strip_Nil)

lemma generate_answer_try_search:
  assumes "strip question \<noteq> []" "embedding_generator p [question] w = (Inr (v # vs), w1)"
    "db_manager p v k w1 = (Inl e, w2)"
  shows "generate_answer_try p question k t0 t1 w = (Inl e, w2)"
  using assms by (auto simp add: generate_answer_try_def strip_Nil)

lemma generate_answer_try_api:
  assumes "strip question \<noteq> []" "embedding_generator p [question] w = (Inr (v # vs), w1)"
    "db_manager p v k w1 = (Inr sr, w2)" "\<not> use_mock_llm p"
  shows "generate_answer_try p question k t0 t1 w
     = (case call_openrouter_api p question (sr_documents sr) w2 of
          (Inl e, w3) \<Rightarrow> (Inl e, w3)
        | (Inr (answer, tokens_used), w3) \<Rightarrow>
            (case py_len answer of
               Inl e \<Rightarrow> (Inl e, w3)
             | Inr n \<Rightarrow>
                 (Inr \<lparr>ans_answer = answer,
                       ans_sources = format_sources (sr_documents sr) (sr_metadatas sr) (sr_distances sr),
                       ans_model_used = model_slug p,
                       ans_tokens_used = tokens_used,
                       ans_processing_time = py_round (t1 - t0) 2,
                       ans_context_documents_found = length (sr_documents sr)\<rparr>, w3)))"
  using assms by (auto simp add: generate_answer_try_def strip_Nil Let_def)

text \<open>
  Claim C7, amended.  \<open>generate_answer\<close> always returns an Answer and never raises.  An
  exception raised by the embedding generator, by the store search, or by the API call
  when it is neither a \<open>RequestException\<close> nor a \<open>KeyError\<close>, reaches the top-level handler
  and becomes the standardized error Answer: the answer is
  \<open>"Error: Failed to generate answer: "\<close> followed by the message, sources are empty, and
  \<open>tokens_used\<close>, \<open>processing_time\<close> and \<open>context_documents_found\<close> are zero.  A
  \<open>RequestException\<close> of the API call, and a \<open>KeyError\<close> on its response, are handled
  inside \<open>_call_openrouter_api\<close>: the result is an ordinary Answer whose answer is
  \<open>"API Error: "\<close> followed by the message, or \<open>"Error: Unexpected response format from
  API"\<close>, with \<open>tokens_used\<close> zero, the retrieved sources, the measured processing time and
  the number of retrieved documents.
\<close>

theorem generate_answer_handles_exceptions:
  "(\<exists>a w'. generate_answer p question k t0 t1 w = (Inr a, w'))
   \<and> (strip question \<noteq> [] \<and> embedding_generator p [question] w = (Inl e, w1) \<longrightarrow>
        generate_answer p question k t0 t1 w
          = (Inr (create_error_response p (''Failed to generate answer: '' @ exn_str e)), w1))
   \<and> (strip question \<noteq> [] \<and> embedding_generator p [question] w = (Inr (v # vs), w1)
        \<and> db_manager p v k w1 = (Inl e, w2) \<longrightarrow>
        generate_answer p question k t0 t1 w
          = (Inr (create_error_response p (''Failed to generate answer: '' @ exn_str e)), w2))
   \<and> (strip question \<noteq> [] \<and> embedding_generator p [question] w = (Inr (v # vs), w1)
        \<and> db_manager p v k w1 = (Inr sr, w2) \<and> \<not> use_mock_llm p
        \<and> api_post p (build_request p (build_prompt question (sr_documents sr))) w2 = (Inl e, w3)
        \<and> exn_cls e \<noteq> RequestException \<and> exn_cls e \<noteq> KeyError \<longrightarrow>
        generate_answer p question k t0 t1 w
          = (Inr (create_error_response p (''Failed to generate answer: '' @ exn_str e)), w3))
   \<and> (strip question \<noteq> [] \<and> embedding_generator p [question] w = (Inr (v # vs), w1)
        \<and> db_manager p v k w1 = (Inr sr, w2) \<and> \<not> use_mock_llm p
        \<and> api_post p (build_request p (build_prompt question (sr_documents sr))) w2 = (Inl e, w3)
        \<and> exn_cls e = RequestException \<longrightarrow>
        generate_answer p question k t0 t1 w
          = (Inr \<lparr>ans_answer = JStr (''API Error: '' @ exn_str e),
                  ans_sources = format_sources (sr_documents sr) (sr_metadatas sr) (sr_distances sr),
                  ans_model_used = model_slug p,
                  ans_tokens_used = JInt 0,
                  ans_processing_time = py_round (t1 - t0) 2,
                  ans_context_documents_found = length (sr_documents sr)\<rparr>, w3))
   \<and> (strip question \<noteq> [] \<and> embedding_generator p [question] w = (Inr (v # vs), w1)
        \<and> db_manager p v k w1 = (Inr sr, w2) \<and> \<not> use_mock_llm p
        \<and> api_post p (build_request p (build_prompt question (sr_documents sr))) w2 = (Inr data, w3)
        \<and> parse_response data = Inl e \<and> exn_cls e = KeyError \<longrightarrow>
        generate_answer p question k t0 t1 w
          = (Inr \<lparr>ans_answer = JStr ''Error: Unexpected response format from API'',
                  ans_sources = format_sources (sr_documents sr) (sr_metadatas sr) (sr_distances sr),
                  ans_model_used = model_slug p,
                  ans_tokens_used = JInt 0,
                  ans_processing_time = py_round (t1 - t0) 2,
                  ans_context_documents_found = length (sr_documents sr)\<rparr>, w3))
   \<and> create_error_response p m
        = \<lparr>ans_answer = JStr (''Error: '' @ m), ans_sources = [], ans_model_used = model_slug p,
           ans_tokens_used = JInt 0, ans_processing_time = 0, ans_context_documents_found = 0\<rparr>"
proof (intro conjI impI)
  show "\<exists>a w'. generate_answer p question k t0 t1 w = (Inr a, w')"
    by (rule generate_answer_returns)
next
  assume "strip question \<noteq> [] \<and> embedding_generator p [question] w = (Inl e, w1)"
  then show "generate_answer p question k t0 t1 w
          = (Inr (create_error_response p (''Failed to generate answer: '' @ exn_str e)), w1)"
    by (simp add: generate_answer_def generate_answer_try_embed)
next
  assume "strip question \<noteq> [] \<and> embedding_generator p [question] w = (Inr (v # vs), w1)
        \<and> db_manager p v k w1 = (Inl e, w2)"
  then show "generate_answer p question k t0 t1 w
          = (Inr (create_error_response p (''Failed to generate answer: '' @ exn_str e)), w2)"
    by (simp add: generate_answer_def generate_answer_try_search[where v = v and vs = vs and ?w1.0 = w1])
next
  assume a: "strip question \<noteq> [] \<and> embedding_generator p [question] w = (Inr (v # vs), w1)
        \<and> db_manager p v k w1 = (Inr sr, w2) \<and> \<not> use_mock_llm p
        \<and> api_post p (build_request p (build_prompt question (sr_documents sr))) w2 = (Inl e, w3)
        \<and> exn_cls e \<noteq> RequestException \<and> exn_cls e \<noteq> KeyError"
  then have c: "call_openrouter_api p question (sr_documents sr) w2 = (Inl e, w3)"
    by (simp add: call_openrouter_api_def api_handlers_def Let_def)
  from a have "generate_answer_try p question k t0 t1 w = (Inl e, w3)"
    by (simp add: generate_answer_try_api[where v = v and vs = vs and ?w1.0 = w1 and sr = sr and ?w2.0 = w2] c)
  then show "generate_answer p question k t0 t1 w
          = (Inr (create_error_response p (''Failed to generate answer: '' @ exn_str e)), w3)"
    by (simp add: generate_answer_def)
next
  assume a: "strip question \<noteq> [] \<and> embedding_generator p [question] w = (Inr (v # vs), w1)
        \<and> db_manager p v k w1 = (Inr sr, w2) \<and> \<not> use_mock_llm p
        \<and> api_post p (build_request p (build_prompt question (sr_documents sr))) w2 = (Inl e, w3)
        \<and> exn_cls e = RequestException"
  then have c: "call_openrouter_api p question (sr_documents sr) w2
      = (Inr (JStr (''API Error: '' @ exn_str e), JInt 0), w3)"
    by (simp add: call_openrouter_api_def api_handlers_def Let_def)
  from a have "generate_answer_try p question k t0 t1 w
     = (Inr \<lparr>ans_answer = JStr (''API Error: '' @ exn_str e),
                  ans_sources = format_sources (sr_documents sr) (sr_metadatas sr) (sr_distances sr),
                  ans_model_used = model_slug p,
                  ans_tokens_used = JInt 0,
                  ans_processing_time = py_round (t1 - t0) 2,
                  ans_context_documents_found = length (sr_documents sr)\<rparr>, w3)"
    by (simp add: generate_answer_try_api[where v = v and vs = vs and ?w1.0 = w1 and sr = sr and ?w2.0 = w2] c)
  then show "generate_answer p question k t0 t1 w
          = (Inr \<lparr>ans_answer = JStr (''API Error: '' @ exn_str e),
                  ans_sources = format_sources (sr_documents sr) (sr_metadatas sr) (sr_distances sr),
                  ans_model_used = model_slug p,
                  ans_tokens_used = JInt 0,
                  ans_processing_time = py_round (t1 - t0) 2,
                  ans_context_documents_found = length (sr_documents sr)\<rparr>, w3)"
    by (simp add: generate_answer_def)
next
  assume a: "strip question \<noteq> [] \<and> embedding_generator p [question] w = (Inr (v # vs), w1)
        \<and> db_manager p v k w1 = (Inr sr, w2) \<and> \<not> use_mock_llm p
        \<and> api_post p (build_request p (build_prompt question (sr_documents sr))) w2 = (Inr data, w3)
        \<and> parse_response data = Inl e \<and> exn_cls e = KeyError"
  then have c: "call_openrouter_api p question (sr_documents sr) w2
      = (Inr (JStr ''Error: Unexpected response format from API'', JInt 0), w3)"
    by (simp add: call_openrouter_api_def api_handlers_def Let_def)
  from a have "generate_answer_try p question k t0 t1 w
     = (Inr \<lparr>ans_answer = JStr ''Error: Unexpected response format from API'',
                  ans_sources = format_sources (sr_documents sr) (sr_metadatas sr) (sr_distances sr),
                  ans_model_used = model_slug p,
                  ans_tokens_used = JInt 0,
                  ans_processing_time = py_round (t1 - t0) 2,
                  ans_context_documents_found = length (sr_documents sr)\<rparr>, w3)"
    by (simp add: generate_answer_try_api[where v = v and vs = vs and ?w1.0 = w1 and sr = sr and ?w2.0 = w2] c)
  then show "generate_answer p question k t0 t1 w
          = (Inr \<lparr>ans_answer = JStr ''Error: Unexpected response format from API'',
                  ans_sources = format_sources (sr_documents sr) (sr_metadatas sr) (sr_distances sr),
                  ans_model_used = model_slug p,
                  ans_tokens_used = JInt 0,
                  ans_processing_time = py_round (t1 - t0) 2,
                  ans_context_documents_found = length (sr_documents sr)\<rparr>, w3)"
    by (simp add: generate_answer_def)
next
  show "create_error_response p m
        = \<lparr>ans_answer = JStr (''Error: '' @ m), ans_sources = [], ans_model_used = model_slug p,
           ans_tokens_used = JInt 0, ans_processing_time = 0, ans_context_documents_found = 0\<rparr>"
    by (simp add: create_error_response_def)
qed

lemma strip_question: "strip ''What is X?'' = ''What is X?''"
  by (simp add: strip_def isspace_def)

lemma py_round_one: "py_round 1 2 = 1"
  using round_half_even_of_int[of 100] by (simp add: py_round_def)

text \<open>
  Claim C7 as stated fails: when the API call raises a \<open>RequestException\<close>, the exception
  does not reach the top-level handler; the Answer starts with \<open>"API Error:"\<close>, not
  \<open>"Error:"\<close>, and carries one source, a processing time of 1 and a document count of 1.
\<close>

theorem generate_answer_api_error_counterexample:
  "generate_answer
     (logging_pipeline (Inr [[1, 0]]) (Inr one_result) (Inl (Raise RequestException ''timed out'')) False)
     ''What is X?'' 3 0 1 []
   = (Inr \<lparr>ans_answer = JStr ''API Error: timed out'',
           ans_sources = [\<lparr>src_content = ''The sky is blue.'', src_score = 3 / 4,
                           src_metadata = [(''source'', MStr ''test'')]\<rparr>],
           ans_model_used = ''openai/gpt-3.5-turbo'',
           ans_tokens_used = JInt 0,
           ans_processing_time = 1,
           ans_context_documents_found = 1\<rparr>,
      [''generate_embeddings'', ''search'', ''post''])"
  by (simp add: generate_answer_def generate_answer_try_def strip_question logging_pipeline_def
        one_result_def call_openrouter_api_def api_handlers_def Let_def format_sources_def
        py_round_three_quarters py_round_one)

theorem generate_answer_handles_exceptions_witness:
  "strip ''What is X?'' \<noteq> []
   \<and> generate_answer pipeline_embed_fails ''What is X?'' 3 0 1 []
       = (Inr (create_error_response pipeline_embed_fails
                ''Failed to generate answer: Failed to generate embeddings: no model''),
          [''generate_embeddings''])
   \<and> generate_answer pipeline_search_fails ''What is X?'' 3 0 1 []
       = (Inr (create_error_response pipeline_search_fails
                ''Failed to generate answer: Search failed: disk''),
          [''generate_embeddings'', ''search''])
   \<and> generate_answer (pipeline_api_fails (Raise OtherException ''boom'')) ''What is X?'' 3 0 1 []
       = (Inr (create_error_response (pipeline_api_fails (Raise OtherException ''boom''))
                ''Failed to generate answer: boom''),
          [''generate_embeddings'', ''search'', ''post''])
   \<and> generate_answer (pipeline_api_fails (Raise RequestException ''timed out'')) ''What is X?'' 3 0 1 []
       = (Inr \<lparr>ans_answer = JStr ''API Error: timed out'',
               ans_sources = format_sources [''The sky is blue.''] [[(''source'', MStr ''test'')]] [1 / 2],
               ans_model_used = ''openai/gpt-3.5-turbo'',
               ans_tokens_used = JInt 0,
               ans_processing_time = py_round (1 - 0) 2,
               ans_context_documents_found = 1\<rparr>,
          [''generate_embeddings'', ''search'', ''post''])
   \<and> generate_answer (pipeline_api_returns (JObj [])) ''What is X?'' 3 0 1 []
       = (Inr \<lparr>ans_answer = JStr ''Error: Unexpected response format from API'',
               ans_sources = format_sources [''The sky is blue.''] [[(''source'', MStr ''test'')]] [1 / 2],
               ans_model_used = ''openai/gpt-3.5-turbo'',
               ans_tokens_used = JInt 0,
               ans_processing_time = py_round (1 - 0) 2,
               ans_context_documents_found = 1\<rparr>,
          [''generate_embeddings'', ''search'', ''post''])"
proof -
  have q: "strip ''What is X?'' \<noteq> []" by (simp add: strip_question)
  have A: "strip ''What is X?'' \<noteq> []
      \<and> embedding_generator pipeline_embed_fails [''What is X?''] []
          = (Inl (Raise RuntimeError ''Failed to generate embeddings: no model''), [''generate_embeddings''])"
    using q by (simp add: pipeline_embed_fails_def logging_pipeline_def)
  have B: "strip ''What is X?'' \<noteq> []
      \<and> embedding_generator pipeline_search_fails [''What is X?''] []
          = (Inr ([1, 0] # []), [''generate_embeddings''])
      \<and> db_manager pipeline_search_fails [1, 0] 3 [''generate_embeddings'']
          = (Inl (Raise RuntimeError ''Search failed: disk''), [''generate_embeddings'', ''search''])"
    using q by (simp add: pipeline_search_fails_def logging_pipeline_def)
  have C: "strip ''What is X?'' \<noteq> []
      \<and> embedding_generator (pipeline_api_fails (Raise OtherException ''boom'')) [''What is X?''] []
          = (Inr ([1, 0] # []), [''generate_embeddings''])
      \<and> db_manager (pipeline_api_fails (Raise OtherException ''boom'')) [1, 0] 3 [''generate_embeddings'']
          = (Inr one_result, [''generate_embeddings'', ''search''])
      \<and> \<not> use_mock_llm (pipeline_api_fails (Raise OtherException ''boom''))
      \<and> api_post (pipeline_api_fails (Raise OtherException ''boom''))
           (build_request (pipeline_api_fails (Raise OtherException ''boom''))
              (build_prompt ''What is X?'' (sr_documents one_result)))
           [''generate_embeddings'', ''search'']
          = (Inl (Raise OtherException ''boom''), [''generate_embeddings'', ''search'', ''post''])
      \<and> exn_cls (Raise OtherException ''boom'') \<noteq> RequestException
      \<and> exn_cls (Raise OtherException ''boom'') \<noteq> KeyError"
    using q by (simp add: pipeline_api_fails_def logging_pipeline_def)
  have D: "strip ''What is X?'' \<noteq> []
      \<and> embedding_generator (pipeline_api_fails (Raise RequestException ''timed out'')) [''What is X?''] []
          = (Inr ([1, 0] # []), [''generate_embeddings''])
      \<and> db_manager (pipeline_api_fails (Raise RequestException ''timed out'')) [1, 0] 3 [''generate_embeddings'']
          = (Inr one_result, [''generate_embeddings'', ''search''])
      \<and> \<not> use_mock_llm (pipeline_api_fails (Raise RequestException ''timed out''))
      \<and> api_post (pipeline_api_fails (Raise RequestException ''timed out''))
           (build_request (pipeline_api_fails (Raise RequestException ''timed out''))
              (build_prompt ''What is X?'' (sr_documents one_result)))
           [''generate_embeddings'', ''search'']
          = (Inl (Raise RequestException ''timed out''), [''generate_embeddings'', ''search'', ''post''])
      \<and> exn_cls (Raise RequestException ''timed out'') = RequestException"
    using q by (simp add: pipeline_api_fails_def logging_pipeline_def)
  have F: "strip ''What is X?'' \<noteq> []
      \<and> embedding_generator (pipeline_api_returns (JObj [])) [''What is X?''] []
          = (Inr ([1, 0] # []), [''generate_embeddings''])
      \<and> db_manager (pipeline_api_returns (JObj [])) [1, 0] 3 [''generate_embeddings'']
          = (Inr one_result, [''generate_embeddings'', ''search''])
      \<and> \<not> use_mock_llm (pipeline_api_returns (JObj []))
      \<and> api_post (pipeline_api_returns (JObj []))
           (build_request (pipeline_api_returns (JObj []))
              (build_prompt ''What is X?'' (sr_documents one_result)))
           [''generate_embeddings'', ''search'']
          = (Inr (JObj []), [''generate_embeddings'', ''search'', ''post''])
      \<and> parse_response (JObj []) = Inl (Raise KeyError ''choices'')
      \<and> exn_cls (Raise KeyError ''choices'') = KeyError"
    using q by (simp add: pipeline_api_returns_def logging_pipeline_def parse_response_def then_exn_def)
  note tA = generate_answer_handles_exceptions[THEN conjunct2, THEN conjunct1, rule_format, OF A,
      where k = 3 and ?t0.0 = 0 and ?t1.0 = 1]
  note tB = generate_answer_handles_exceptions[THEN conjunct2, THEN conjunct2, THEN conjunct1,
      rule_format, OF B, where ?t0.0 = 0 and ?t1.0 = 1]
  note tC = generate_answer_handles_exceptions[THEN conjunct2, THEN conjunct2, THEN conjunct2,
      THEN conjunct1, rule_format, OF C, where ?t0.0 = 0 and ?t1.0 = 1]
  note tD = generate_answer_handles_exceptions[THEN conjunct2, THEN conjunct2, THEN conjunct2,
      THEN conjunct2, THEN conjunct1, rule_format, OF D, where ?t0.0 = 0 and ?t1.0 = 1]
  note tF = generate_answer_handles_exceptions[THEN conjunct2, THEN conjunct2, THEN conjunct2,
      THEN conjunct2, THEN conjunct2, THEN conjunct1, rule_format, OF F, where ?t0.0 = 0 and ?t1.0 = 1]
  have m: "model_slug (pipeline_api_fails e) = ''openai/gpt-3.5-turbo''"
    "model_slug (pipeline_api_returns d) = ''openai/gpt-3.5-turbo''" for e d
    by (simp_all add: pipeline_api_fails_def pipeline_api_returns_def logging_pipeline_def)
  show ?thesis
    using q tA tB tC tD tF by (simp add: m one_result_def)
qed

end
